theory Spec2Isabelle
  imports Main "HOL-Library.Word" "HOL-Library.Signed_Division"
begin

unbundle bit_operations_syntax

section \<open>The VOPR worker (vopr.zig, carried in src/vopr_hub/SETUP.md)\<close>

text \<open>
  The worker runs the simulator as a child process, maps its exit code to a bug kind,
  replays a failing seed in Debug mode and sends a report to the VOPR Hub over TCP.
  Everything outside the process (the child process, \<open>git log\<close>, the TCP connection)
  is a field of \<open>worker_env\<close>; what the worker does to the outside is recorded as a
  list of events, in order.
\<close>

type_synonym u8 = "8 word"
type_synonym u64 = "64 word"
type_synonym address = string

datatype Bug = crash | liveness | correctness

fun enumToInt :: "Bug \<Rightarrow> u8" where
  "enumToInt crash = 127"
| "enumToInt liveness = 128"
| "enumToInt correctness = 129"

datatype Mode = Debug | ReleaseSafe | ReleaseFast | ReleaseSmall

record Report =
  bug :: u8
  seed :: u64
  commit :: "u8 list"

text \<open>How a child process ended: \<open>std.ChildProcess.init\<close> failed, \<open>spawnAndWait\<close>
  failed, the child exited with a code, or it ended another way (signal, stop).\<close>

datatype child_term = InitError | SpawnError | Exited u8 | OtherTerm

record worker_env =
  child_process :: "string list \<Rightarrow> child_term"
  git_log :: "string option"
  tcp_connect :: "address \<Rightarrow> bool"
  tcp_write :: "u8 list \<Rightarrow> bool"
  tcp_read :: "u8 list option"

datatype event =
  Print string
  | Spawn "string list"
  | Exec "string list"
  | Connect address
  | Write "u8 list"
  | Read

text \<open>A call returns, or the process ends: \<open>os.exit\<close> with a code, or a panic
  (\<open>@panic\<close>, a failed \<open>assert\<close>, \<open>unreachable\<close>, an index out of bounds; the worker
  is run with \<open>zig run\<close>, a safe build, where these all panic).\<close>

datatype 'a outcome = Return 'a | Exit nat | ZigPanic string

definition and_then ::
  "event list \<times> 'a outcome \<Rightarrow> ('a \<Rightarrow> event list \<times> 'b outcome) \<Rightarrow> event list \<times> 'b outcome" where
  "and_then m f =
     (case m of
        (ev, Return x) \<Rightarrow> (case f x of (ev', r) \<Rightarrow> (ev @ ev', r))
      | (ev, Exit n) \<Rightarrow> (ev, Exit n)
      | (ev, ZigPanic s) \<Rightarrow> (ev, ZigPanic s))"

text \<open>\<open>fatal\<close>: print the message to stderr, then \<open>os.exit(1)\<close>. Format arguments are
  not rendered: an event carries the format string.\<close>

definition fatal :: "string \<Rightarrow> event list \<times> 'a outcome" where
  "fatal fmt_string = ([Print (''error: '' @ fmt_string @ [CHR 0x0A])], Exit 1)"

text \<open>\<open>fmt.formatInt(seed, 10, ...)\<close>: the decimal digits of the seed.\<close>

function decimal :: "nat \<Rightarrow> string" where
  "decimal n = (if n < 10 then [''0123456789'' ! n]
                else decimal (n div 10) @ [''0123456789'' ! (n mod 10)])"
  by pat_completeness auto
termination
  by (relation "measure (\<lambda>n. n)") auto

definition formatInt :: "u64 \<Rightarrow> string" where
  "formatInt v = decimal (unat v)"

text \<open>\<open>@bitCast([8]u8, v)\<close> on the little-endian host the source's comment names: the
  least significant byte first. \<open>@byteSwap\<close> reverses the eight bytes.\<close>

definition bitCast_u64 :: "u64 \<Rightarrow> u8 list" where
  "bitCast_u64 v = map (\<lambda>i. ucast (drop_bit (8 * i) v)) [0..<8]"

definition byteSwap :: "u64 \<Rightarrow> u64" where
  "byteSwap v = foldl (\<lambda>acc b. push_bit 8 acc OR ucast b) 0 (bitCast_u64 v)"

text \<open>\<open>fmt.charToDigit(c, 16)\<close> and \<open>fmt.hexToBytes\<close> of Zig's standard library:
  digits, then letters of either case, refused when not below the radix; the input is
  read in pairs, the first digit of a pair the high nibble.\<close>

definition charToDigit :: "char \<Rightarrow> nat \<Rightarrow> nat option" where
  "charToDigit c radix =
     (let n = (of_char c :: nat);
          v = (if 48 \<le> n \<and> n \<le> 57 then Some (n - 48)
               else if 65 \<le> n \<and> n \<le> 90 then Some (n - 65 + 10)
               else if 97 \<le> n \<and> n \<le> 122 then Some (n - 97 + 10)
               else None)
      in case v of None \<Rightarrow> None | Some d \<Rightarrow> if d \<ge> radix then None else Some d)"

fun hexToBytes :: "string \<Rightarrow> u8 list option" where
  "hexToBytes [] = Some []"
| "hexToBytes [c] = None"
| "hexToBytes (h # l # rest) =
     (case charToDigit h 16 of None \<Rightarrow> None
      | Some hi \<Rightarrow>
        (case charToDigit l 16 of None \<Rightarrow> None
         | Some lo \<Rightarrow>
           (case hexToBytes rest of None \<Rightarrow> None
            | Some bs \<Rightarrow> Some ((push_bit 4 (of_nat hi) OR of_nat lo) # bs))))"

definition run_child_process :: "worker_env \<Rightarrow> string list \<Rightarrow> event list \<times> u8 outcome" where
  "run_child_process env argv =
     (case child_process env argv of
        InitError \<Rightarrow>
          fatal ''unable to initialize simulator as a child process. Error: {}''
      | SpawnError \<Rightarrow>
          and_then ([Spawn argv], Return ())
            (\<lambda>_. fatal ''unable to run the simulator as a child process. Error: {}'')
      | Exited code \<Rightarrow>
          ([Spawn argv, Print (''exit with code: {}'' @ [CHR 0x0A])], Return code)
      | OtherTerm \<Rightarrow>
          and_then ([Spawn argv], Return ())
            (\<lambda>_. fatal (''the simulator exited without an exit code. Term: {}'' @ [CHR 0x0A])))"

text \<open>\<open>create_report\<close>: the bug kind as 1, 2 or 3, the seed, and the commit read from
  characters 7 to 46 of the output of \<open>git log -1\<close> (a slice of a shorter output is out
  of bounds).\<close>

definition create_report :: "worker_env \<Rightarrow> Bug \<Rightarrow> u64 \<Rightarrow> event list \<times> Report outcome" where
  "create_report env bg sd =
     and_then
       ([Print (''Collecting VOPR bug and seed, and the current git commit hash.'' @ [CHR 0x0A])],
        Return ())
       (\<lambda>_.
         let bug_type = (case bg of correctness \<Rightarrow> 1 | liveness \<Rightarrow> 2 | crash \<Rightarrow> (3 :: u8)) in
         and_then ([Exec [''git'', ''log'', ''-1'']], Return ())
           (\<lambda>_.
             case git_log env of
               None \<Rightarrow> fatal ''unable to extract TigerBeetle's git commit hash. Error: {}''
             | Some stdout \<Rightarrow>
                 if length stdout < 47 then ([], ZigPanic ''index out of bounds'')
                 else
                   and_then
                     ([Print (''git commit that was retrieved: {s}'' @ [CHR 0x0A])], Return ())
                     (\<lambda>_.
                       let commit_string = take 40 (drop 7 stdout) in
                       case hexToBytes commit_string of
                         None \<Rightarrow> fatal ''unable to cast the git commit hash to hex. Error: {}''
                       | Some commit_byte_array \<Rightarrow>
                           ([], Return \<lparr>bug = bug_type, seed = sd,
                                        commit = commit_byte_array\<rparr>))))"

text \<open>\<open>send_report\<close>: the 29-byte array (bug, seed with its bytes swapped, commit) is
  what \<open>writeAll\<close> is given. Each of the three network steps ends in \<open>fatal\<close> when it
  fails; a reply of no bytes is printed and the call returns.\<close>

definition send_report :: "worker_env \<Rightarrow> address \<Rightarrow> Bug \<Rightarrow> u64 \<Rightarrow> event list \<times> unit outcome" where
  "send_report env addr bg sd =
     and_then (create_report env bg sd)
       (\<lambda>message.
         if \<not> (bug message = 1 \<or> bug message = 2 \<or> bug message = 3)
         then ([], ZigPanic ''reached unreachable code'')
         else
           let seed_integer_value = byteSwap (seed message);
               seed_byte_array = bitCast_u64 seed_integer_value;
               byte_array = [bug message] @ seed_byte_array @ commit message
           in
           and_then ([Connect addr], Return ())
             (\<lambda>_.
               if \<not> tcp_connect env addr
               then fatal ''unable to create a connection to the VOPR Hub. Error: {}''
               else
                 and_then ([Print ''Connected to VOPR Hub.'', Write byte_array], Return ())
                   (\<lambda>_.
                     if \<not> tcp_write env byte_array
                     then fatal ''unable to send the report to the VOPR Hub. Error: {}''
                     else
                       and_then ([Read], Return ())
                         (\<lambda>_.
                           case tcp_read env of
                             None \<Rightarrow> fatal ''unable to read a reply from the VOPR Hub. Error: {}''
                           | Some reply \<Rightarrow>
                               if length reply > 0
                               then ([Print ''Confirmation received from VOPR Hub: {s}.''],
                                     Return ())
                               else ([Print ''No reply received from VOPR Hub.''], Return ())))))"

fun mode_str :: "Mode \<Rightarrow> string option" where
  "mode_str Debug = Some ''-ODebug''"
| "mode_str ReleaseSafe = Some ''-OReleaseSafe''"
| "mode_str ReleaseFast = None"
| "mode_str ReleaseSmall = None"

definition simulator_argv :: "string \<Rightarrow> u64 \<Rightarrow> string list" where
  "simulator_argv ms sd = [''zig/zig'', ''run'', ms, ''./src/simulator.zig'', ''--'', formatInt sd]"

text \<open>\<open>run_simulator\<close>: run the child, map the exit code, and on a bug either replay
  in Debug mode (from ReleaseSafe) and assert that the replay finds the same bug, or
  (in Debug mode) send the report when an address is set.\<close>

function run_simulator ::
  "worker_env \<Rightarrow> u64 \<Rightarrow> Mode \<Rightarrow> address option \<Rightarrow> event list \<times> Bug option outcome" where
  "run_simulator env sd mode send_address =
     (case mode_str mode of
        None \<Rightarrow> ([], ZigPanic ''reached unreachable code'')
      | Some ms \<Rightarrow>
          and_then (run_child_process env (simulator_argv ms sd))
            (\<lambda>exit_code.
              and_then
                (if exit_code = 0 then ([], Return None)
                 else if exit_code = 127 then ([], Return (Some crash))
                 else if exit_code = 128 then ([], Return (Some liveness))
                 else if exit_code = 129 then ([], Return (Some correctness))
                 else ([Print ''unexpected simulator exit code: {}''],
                       ZigPanic ''unexpected simulator exit code.''))
                (\<lambda>result.
                  case result of
                    None \<Rightarrow> ([], Return result)
                  | Some bg \<Rightarrow>
                      if mode = ReleaseSafe then
                        and_then
                          ([Print (''simulator exited with exit code {}.'' @ [CHR 0x0A]),
                            Print (''rerunning seed {} in Debug mode.'' @ [CHR 0x0A])],
                           Return ())
                          (\<lambda>_.
                            and_then (run_simulator env sd Debug send_address)
                              (\<lambda>rerun.
                                case rerun of
                                  None \<Rightarrow> ([], ZigPanic ''attempt to use null value'')
                                | Some bg' \<Rightarrow>
                                    if bg = bg' then ([], Return result)
                                    else ([], ZigPanic ''reached unreachable code'')))
                      else
                        (case send_address of
                           None \<Rightarrow> ([], Return result)
                         | Some hub_address \<Rightarrow>
                             and_then (send_report env hub_address bg sd)
                               (\<lambda>_. ([], Return result))))))"
  by pat_completeness auto
termination
  by (relation "measure (\<lambda>(env, sd, mode, send_address). if mode = ReleaseSafe then 1 else 0)")
    auto

section \<open>The assignment scheduler (vopr_organizer/main.go and its later revision)\<close>

text \<open>
  Two revisions of the scheduler are among the sources: \<open>vopr_organizer/main.go\<close>, which
  assigns branch names, and a later one (the unnamed source \<open>part_001\<close>), which pages
  through the pull requests and assigns commit hashes. \<open>set_environment_variables\<close>,
  \<open>checkout_branch\<close>, the logging functions and the loop of \<open>get_vopr_assignments\<close> are
  the same in both; a function that differs has the later revision's model under the
  same name with the suffix \<open>_part001\<close>.

  Go's \<open>int\<close> (64 bits on the machines the scheduler runs on) is modelled as \<open>int\<close>:
  \<open>strconv.Atoi\<close> only lets 64-bit values through, and the counters of
  \<open>get_vopr_assignments\<close> stay below \<open>num_voprs\<close>. Where \<open>get_commit_hashes\<close> computes
  \<open>num_voprs - 1\<close> and counts the pages, the wrap-around is written out with \<open>go_int\<close>:
  at the least 64-bit value \<open>num_voprs - 1\<close> is the greatest one there. (In
  \<open>get_vopr_assignments\<close> the same difference is only used inside a loop that runs
  for \<open>num_voprs > 1\<close>.) What the program prints on standard output is a list of the
  strings written, without \<open>log_message\<close>'s timestamp (the clock is not modelled).
\<close>

record Label =
  Name :: string

record Head =
  Label :: string

record Issue =
  Labels :: "Label list"
  Head :: Head

record Commit =
  Sha :: string

text \<open>The package-level variables of main.go.\<close>

record globals =
  debug_mode :: bool
  tigerbeetle_directory :: string
  repository_url :: string
  num_voprs :: int
  current_vopr :: int

text \<open>How the process ends other than by returning: \<open>os.Exit\<close> with a code, or a
  panic (which ends a Go process with exit status 2).\<close>

datatype go_panic = IntegerDivideByZero | IndexOutOfRange | NilDereference | PanicValue string

datatype halt = OsExit int | GoPanic go_panic

type_synonym printed = "string list"

text \<open>An HTTP GET: \<open>http.Get\<close> fails, or gives a response with a status code, what
  \<open>io.ReadAll\<close> of the body returns (an error or not, and the bytes read) and what
  \<open>json.Unmarshal\<close> makes of these bytes for the type asked (the decoder is not
  modelled).\<close>

record 'a response =
  StatusCode :: int
  ReadAll_err :: "string option"
  Body :: string
  Unmarshal :: "string + 'a"

datatype 'a http_get = GetError string | GetOk "'a response"

record sched_env =
  LookupEnv :: "string \<Rightarrow> string option"
  Get_issues :: "string \<Rightarrow> Issue list http_get"
  Get_commits :: "string \<Rightarrow> Commit list http_get"

text \<open>A command run by \<open>exec.Command(...).Run()\<close> or \<open>.Output()\<close> in a directory: its
  standard output and its error, and the state of the machine's working copies after
  it.\<close>

record cmd_result =
  cmd_stdout :: string
  cmd_err :: "string option"

type_synonym 's exec = "string \<Rightarrow> string list \<Rightarrow> 's \<Rightarrow> cmd_result \<times> 's"

subsection \<open>Library functions\<close>

text \<open>\<open>fmt.Sprintf("%d", n)\<close>.\<close>

definition itoa :: "int \<Rightarrow> string" where
  "itoa n = (if n < 0 then CHR ''-'' # decimal (nat (- n)) else decimal (nat n))"

text \<open>\<open>strconv.Atoi\<close>: an optional sign, then one or more decimal digits, and a value
  that fits 64 bits; the error is abbreviated to its last part.\<close>

definition is_digit :: "char \<Rightarrow> bool" where
  "is_digit c = (48 \<le> (of_char c :: nat) \<and> (of_char c :: nat) \<le> 57)"

definition digits_value :: "string \<Rightarrow> int" where
  "digits_value ds = foldl (\<lambda>acc c. 10 * acc + (int (of_char c) - 48)) 0 ds"

definition Atoi :: "string \<Rightarrow> string + int" where
  "Atoi s =
     (let neg = (s \<noteq> [] \<and> hd s = CHR ''-'');
          ds = (if s \<noteq> [] \<and> (hd s = CHR ''-'' \<or> hd s = CHR ''+'') then tl s else s)
      in if ds = [] \<or> \<not> list_all is_digit ds then Inl ''invalid syntax''
         else
           let v = (if neg then - digits_value ds else digits_value ds)
           in if v < - (2 ^ 63) \<or> v > 2 ^ 63 - 1 then Inl ''value out of range''
              else Inr v)"

text \<open>\<open>strings.TrimRight(s, cutset)\<close> and \<open>strings.Cut(s, sep)\<close>.\<close>

definition TrimRight :: "string \<Rightarrow> string \<Rightarrow> string" where
  "TrimRight s cutset = rev (dropWhile (\<lambda>c. c \<in> set cutset) (rev s))"

fun Cut_from :: "string \<Rightarrow> string \<Rightarrow> string \<Rightarrow> string \<times> string \<times> bool" where
  "Cut_from before [] sep =
     (if sep = [] then (before, [], True) else (before, [], False))"
| "Cut_from before (c # cs) sep =
     (if take (length sep) (c # cs) = sep then (before, drop (length sep) (c # cs), True)
      else Cut_from (before @ [c]) cs sep)"

definition Cut :: "string \<Rightarrow> string \<Rightarrow> string \<times> string \<times> bool" where
  "Cut s sep = Cut_from [] s sep"

text \<open>The value a 64-bit \<open>int\<close> holds for a result of \<open>+\<close> or \<open>-\<close>: two's complement,
  wrapping around silently.\<close>

definition go_int :: "int \<Rightarrow> int" where
  "go_int n = (n + 2 ^ 63) mod 2 ^ 64 - 2 ^ 63"

text \<open>Integer division and remainder: a panic on a zero divisor, truncation towards
  zero otherwise. Indexing a slice: a panic outside its bounds.\<close>

definition go_div :: "int \<Rightarrow> int \<Rightarrow> halt + int" where
  "go_div a b = (if b = 0 then Inl (GoPanic IntegerDivideByZero) else Inr (a sdiv b))"

definition go_mod :: "int \<Rightarrow> int \<Rightarrow> halt + int" where
  "go_mod a b = (if b = 0 then Inl (GoPanic IntegerDivideByZero) else Inr (a smod b))"

definition go_index :: "'a list \<Rightarrow> int \<Rightarrow> halt + 'a" where
  "go_index xs k =
     (if 0 \<le> k \<and> k < int (length xs) then Inr (xs ! nat k) else Inl (GoPanic IndexOutOfRange))"

subsection \<open>Logging\<close>

definition log_message :: "string \<Rightarrow> string \<Rightarrow> printed" where
  "log_message log_level message = [log_level @ message @ [CHR 0x0A]]"

definition log_error :: "string \<Rightarrow> printed" where
  "log_error message = log_message ''error: '' message"

definition log_info :: "string \<Rightarrow> printed" where
  "log_info message = log_message ''info:  '' message"

definition log_debug :: "globals \<Rightarrow> string \<Rightarrow> printed" where
  "log_debug g message = (if debug_mode g then log_message ''debug: '' message else [])"

subsection \<open>set_environment_variables\<close>

text \<open>The four variables are read in order; the first one that is missing, empty, not
  an integer or not positive ends the process. A value that \<open>strconv.Atoi\<close> refuses is
  logged and then panics; the other failures are logged and call \<open>os.Exit(1)\<close>.\<close>

definition set_environment_variables ::
  "sched_env \<Rightarrow> globals \<Rightarrow> printed \<times> (halt + globals)" where
  "set_environment_variables env g =
     (case LookupEnv env ''TIGERBEETLE_DIRECTORY'' of
        None \<Rightarrow>
          (log_error ''Could not find TIGERBEETLE_DIRECTORY environmental variable'',
           Inl (OsExit 1))
      | Some dir_str \<Rightarrow>
        if dir_str = [] then (log_error ''TIGERBEETLE_DIRECTORY was empty'', Inl (OsExit 1))
        else
          let g1 = g\<lparr>tigerbeetle_directory := TrimRight dir_str [CHR ''/'', CHR 0x5C]\<rparr>;
              out1 = log_debug g (''tigerbeetle_directory set as '' @ tigerbeetle_directory g1)
          in
          (case LookupEnv env ''REPOSITORY_URL'' of
             None \<Rightarrow>
               (out1 @ log_error ''Could not find REPOSITORY_URL environmental variable'',
                Inl (OsExit 1))
           | Some url_str \<Rightarrow>
             if url_str = [] then (out1 @ log_error ''REPOSITORY_URL was empty'', Inl (OsExit 1))
             else
               let g2 = g1\<lparr>repository_url := url_str\<rparr>;
                   out2 = out1 @ log_debug g (''repository_url set as '' @ repository_url g2)
               in
               (case LookupEnv env ''NUM_VOPRS'' of
                  None \<Rightarrow>
                    (out2 @ log_error ''Could not find NUM_VOPRS environmental variable'',
                     Inl (OsExit 1))
                | Some num_voprs_str \<Rightarrow>
                  if num_voprs_str = []
                  then (out2 @ log_error ''NUM_VOPRS was empty'', Inl (OsExit 1))
                  else
                    (case Atoi num_voprs_str of
                       Inl err \<Rightarrow>
                         (out2 @ log_error ''unable to convert num_voprs to a an integer value'',
                          Inl (GoPanic (PanicValue err)))
                     | Inr n \<Rightarrow>
                       if n \<le> 0
                       then (out2 @ log_error ''NUM_VOPRS must be an integer greater than 0'',
                             Inl (OsExit 1))
                       else
                         let g3 = g2\<lparr>num_voprs := n\<rparr>;
                             out3 = out2 @ log_debug g (''num_voprs set as '' @ itoa n)
                         in
                         (case LookupEnv env ''CURRENT_VOPR'' of
                            None \<Rightarrow>
                              (out3 @ log_error
                                 ''Could not find CURRENT_VOPR environmental variable'',
                               Inl (OsExit 1))
                          | Some current_vopr_str \<Rightarrow>
                            if current_vopr_str = []
                            then (out3 @ log_error ''CURRENT_VOPR was empty'', Inl (OsExit 1))
                            else
                              (case Atoi current_vopr_str of
                                 Inl err \<Rightarrow>
                                   (out3 @ log_error
                                      ''unable to convert current_vopr to a an integer value'',
                                    Inl (GoPanic (PanicValue err)))
                               | Inr c \<Rightarrow>
                                 if c \<le> 0
                                 then (out3 @ log_error
                                         ''CURRENT_VOPR must be an integer greater than 0'',
                                       Inl (OsExit 1))
                                 else
                                   (out3 @ log_debug g (''current_vopr set as '' @ itoa c),
                                    Inr (g3\<lparr>current_vopr := c\<rparr>))))))))"

subsection \<open>checkout_branch\<close>

text \<open>Three git commands in the given directory, each on the state the one before
  left: fetch, checkout, and \<open>git branch --show-current\<close>, whose output is compared
  with the branch asked for. The result is Go's \<open>error\<close>: \<open>None\<close> is \<open>nil\<close>.\<close>

definition checkout_branch ::
  "'s exec \<Rightarrow> string \<Rightarrow> string \<Rightarrow> 's \<Rightarrow> printed \<times> string option \<times> 's" where
  "checkout_branch exec branch dir s =
     (case exec dir [''git'', ''fetch'', ''--all''] s of
        (fetched, s1) \<Rightarrow>
          (case cmd_err fetched of
             Some err \<Rightarrow> (log_error (''Failed to run git fetch: '' @ err), Some err, s1)
           | None \<Rightarrow>
             (case exec dir [''git'', ''checkout'', branch] s1 of
                (checked_out, s2) \<Rightarrow>
                  (case cmd_err checked_out of
                     Some err \<Rightarrow>
                       (log_error (''Failed to run git checkout: '' @ err), Some err, s2)
                   | None \<Rightarrow>
                     (case exec dir [''git'', ''branch'', ''--show-current''] s2 of
                        (shown, s3) \<Rightarrow>
                          (case cmd_err shown of
                             Some err \<Rightarrow>
                               (log_error (''Failed to run git log: '' @ err), Some err, s3)
                           | None \<Rightarrow>
                             let current_branch = cmd_stdout shown in
                             if \<not> (current_branch = branch)
                             then ([], Some ''Checkout failed'', s3)
                             else ([], None, s3)))))))"

subsection \<open>The tracker's API\<close>

text \<open>The steps \<open>get_pull_requests\<close> and \<open>get_commits\<close> share after \<open>http.Get\<close>: the
  status code is looked at before the error of \<open>io.ReadAll\<close>, and with a status above
  299 the panic is raised from that error, which is \<open>nil\<close> when the body was read.\<close>

definition decode_response :: "'a http_get \<Rightarrow> printed \<times> (halt + 'a)" where
  "decode_response got =
     (case got of
        GetError err \<Rightarrow>
          (log_error ''unable to create get request'', Inl (GoPanic (PanicValue err)))
      | GetOk res \<Rightarrow>
          if StatusCode res > 299 then
            (log_error (''Response failed with status code: '' @ itoa (StatusCode res)
                        @ '' and'' @ [CHR 0x0A] @ ''body: '' @ Body res @ [CHR 0x0A]),
             Inl (GoPanic (case ReadAll_err res of
                             None \<Rightarrow> NilDereference
                           | Some err \<Rightarrow> PanicValue err)))
          else
            (case ReadAll_err res of
               Some err \<Rightarrow>
                 (log_error ''unable to receive a response from GitHub'',
                  Inl (GoPanic (PanicValue err)))
             | None \<Rightarrow>
               (case Unmarshal res of
                  Inl err \<Rightarrow>
                    (log_error ''unable to unmarshall json'', Inl (GoPanic (PanicValue err)))
                | Inr v \<Rightarrow> ([], Inr v))))"

definition get_pull_requests :: "sched_env \<Rightarrow> globals \<Rightarrow> printed \<times> (halt + Issue list)" where
  "get_pull_requests env g = decode_response (Get_issues env (repository_url g))"

definition get_pull_requests_part001 ::
  "sched_env \<Rightarrow> globals \<Rightarrow> int \<Rightarrow> int \<Rightarrow> printed \<times> (halt + Issue list)" where
  "get_pull_requests_part001 env g num_posts page_number =
     (case decode_response
             (Get_issues env
                (repository_url g @ ''/pulls?per_page='' @ itoa num_posts
                 @ ''&page='' @ itoa page_number)) of
        (out, Inl h) \<Rightarrow> (out, Inl h)
      | (out, Inr pull_requests) \<Rightarrow>
          (out @ [''Num PRs: '' @ itoa (int (length pull_requests)) @ [CHR 0x0A]],
           Inr pull_requests))"

definition get_commits :: "sched_env \<Rightarrow> globals \<Rightarrow> string \<Rightarrow> printed \<times> (halt + string)" where
  "get_commits env g branch_name =
     (case decode_response
             (Get_commits env
                (repository_url g @ ''/commits?per_page=1&sha='' @ branch_name)) of
        (out, Inl h) \<Rightarrow> (out, Inl h)
      | (out, Inr commits) \<Rightarrow>
          if length commits > 0 then (out, Inr (Sha (commits ! 0))) else (out, Inr []))"

subsection \<open>get_branch_names (main.go)\<close>

fun get_branch_names_labels :: "Issue \<Rightarrow> Label list \<Rightarrow> string list \<Rightarrow> string list" where
  "get_branch_names_labels element [] vopr_branches = vopr_branches"
| "get_branch_names_labels element (label # rest) vopr_branches =
     (if Name label = ''vopr'' then
        (case Cut (Label (Head element)) '':'' of
           (before, branch_name, found) \<Rightarrow>
             if found \<and> branch_name \<noteq> [] then vopr_branches @ [branch_name]
             else vopr_branches)
      else get_branch_names_labels element rest vopr_branches)"

fun get_branch_names_elements :: "globals \<Rightarrow> Issue list \<Rightarrow> string list \<Rightarrow> string list" where
  "get_branch_names_elements g [] vopr_branches = vopr_branches"
| "get_branch_names_elements g (element # rest) vopr_branches =
     (let vopr_branches' = get_branch_names_labels element (Labels element) vopr_branches
      in if int (length vopr_branches') = num_voprs g then vopr_branches'
         else get_branch_names_elements g rest vopr_branches')"

definition get_branch_names :: "globals \<Rightarrow> Issue list \<Rightarrow> string list" where
  "get_branch_names g pull_requests = get_branch_names_elements g pull_requests []"

subsection \<open>get_commit_hashes (later revision)\<close>

text \<open>The loop over the labels of one pull request: at the first label named
  \<open>vopr\<close> the head's branch name is resolved with \<open>get_commits\<close> and the loop is left.\<close>

fun get_commit_hashes_labels ::
  "sched_env \<Rightarrow> globals \<Rightarrow> Issue \<Rightarrow> Label list \<Rightarrow> string list
   \<Rightarrow> printed \<times> (halt + string list)" where
  "get_commit_hashes_labels env g element [] vopr_commits = ([], Inr vopr_commits)"
| "get_commit_hashes_labels env g element (label # rest) vopr_commits =
     (if Name label = ''vopr'' then
        (case Cut (Label (Head element)) '':'' of
           (before, branch_name, found) \<Rightarrow>
             if found \<and> branch_name \<noteq> [] then
               (case get_commits env g branch_name of
                  (out, Inl h) \<Rightarrow> (out, Inl h)
                | (out, Inr commit_hash) \<Rightarrow>
                    if commit_hash \<noteq> [] then (out, Inr (vopr_commits @ [commit_hash]))
                    else (out, Inr vopr_commits))
             else ([], Inr vopr_commits))
      else get_commit_hashes_labels env g element rest vopr_commits)"

text \<open>The loop over the pull requests of one page, left when the count is reached.\<close>

fun get_commit_hashes_elements ::
  "sched_env \<Rightarrow> globals \<Rightarrow> Issue list \<Rightarrow> string list \<Rightarrow> printed \<times> (halt + string list)" where
  "get_commit_hashes_elements env g [] vopr_commits = ([], Inr vopr_commits)"
| "get_commit_hashes_elements env g (element # rest) vopr_commits =
     (case get_commit_hashes_labels env g element (Labels element) vopr_commits of
        (out, Inl h) \<Rightarrow> (out, Inl h)
      | (out, Inr vopr_commits') \<Rightarrow>
          if int (length vopr_commits') = go_int (num_voprs g - 1)
          then (out, Inr vopr_commits')
          else
            (case get_commit_hashes_elements env g rest vopr_commits' of
               (out', r) \<Rightarrow> (out @ out', r)))"

text \<open>The loop over the pages. Nothing bounds the number of pages (the source's TODO
  says so), so the loop is a partial function: \<open>None\<close> is a run that never returns.\<close>

partial_function (option) get_commit_hashes_pages ::
  "sched_env \<Rightarrow> globals \<Rightarrow> int \<Rightarrow> string list \<Rightarrow> printed
   \<Rightarrow> (printed \<times> (halt + string list)) option" where
  "get_commit_hashes_pages env g i vopr_commits out =
     (if int (length vopr_commits) < go_int (num_voprs g - 1) then
        (case get_pull_requests_part001 env g 30 i of
           (out1, Inl h) \<Rightarrow> Some (out @ out1, Inl h)
         | (out1, Inr pull_requests) \<Rightarrow>
             (case get_commit_hashes_elements env g pull_requests vopr_commits of
                (out2, Inl h) \<Rightarrow> Some (out @ out1 @ out2, Inl h)
              | (out2, Inr vopr_commits') \<Rightarrow>
                  if int (length pull_requests) < 30
                  then Some (out @ out1 @ out2, Inr vopr_commits')
                  else get_commit_hashes_pages env g (go_int (i + 1)) vopr_commits'
                         (out @ out1 @ out2)))
      else Some (out, Inr vopr_commits))"

definition get_commit_hashes ::
  "sched_env \<Rightarrow> globals \<Rightarrow> (printed \<times> (halt + string list)) option" where
  "get_commit_hashes env g = get_commit_hashes_pages env g 1 [] []"

subsection \<open>get_vopr_assignments\<close>

text \<open>The inner loop \<open>for j := 0; j < repeats; j++\<close>: one more assignment of the
  branch at \<open>branch_index\<close> and one more on the counter \<open>i\<close> each time round.\<close>

function get_vopr_assignments_repeats ::
  "string list \<Rightarrow> int \<Rightarrow> int \<Rightarrow> int \<Rightarrow> int \<Rightarrow> string list \<Rightarrow> halt + (string list \<times> int)" where
  "get_vopr_assignments_repeats vopr_branches branch_index repeats j i vopr_assignments =
     (if j < repeats then
        (case go_index vopr_branches branch_index of
           Inl h \<Rightarrow> Inl h
         | Inr b \<Rightarrow>
             get_vopr_assignments_repeats vopr_branches branch_index repeats (j + 1) (i + 1)
               (vopr_assignments @ [b]))
      else Inr (vopr_assignments, i))"
  by pat_completeness auto
termination
  by (relation "measure (\<lambda>(vopr_branches, branch_index, repeats, j, i, vopr_assignments).
                  nat (repeats - j))") auto

declare get_vopr_assignments_repeats.simps [simp del]

text \<open>The outer loop \<open>for i < num_voprs\<close>. Its condition is on \<open>i\<close> alone, and \<open>i\<close> does
  not move once \<open>repeats\<close> and \<open>remainders\<close> are both 0, so the loop is a partial
  function; that it returns from where \<open>get_vopr_assignments\<close> starts it is proved
  below.\<close>

partial_function (option) get_vopr_assignments_loop ::
  "globals \<Rightarrow> string list \<Rightarrow> int \<Rightarrow> int \<Rightarrow> int \<Rightarrow> int \<Rightarrow> string list
   \<Rightarrow> (halt + string list) option" where
  "get_vopr_assignments_loop g vopr_branches repeats remainders i branch_index vopr_assignments =
     (if i < num_voprs g then
        (case get_vopr_assignments_repeats vopr_branches branch_index repeats 0 i
                vopr_assignments of
           Inl h \<Rightarrow> Some (Inl h)
         | Inr (vopr_assignments1, i1) \<Rightarrow>
             if remainders > 0 then
               (case go_index vopr_branches branch_index of
                  Inl h \<Rightarrow> Some (Inl h)
                | Inr b \<Rightarrow>
                    get_vopr_assignments_loop g vopr_branches repeats (remainders - 1) (i1 + 1)
                      (branch_index + 1) (vopr_assignments1 @ [b]))
             else
               get_vopr_assignments_loop g vopr_branches repeats remainders i1
                 (branch_index + 1) vopr_assignments1)
      else Some (Inr vopr_assignments))"

text \<open>The loop of the other branch: \<open>num_voprs\<close> copies of the mainline revision.\<close>

function get_vopr_assignments_fill :: "globals \<Rightarrow> string \<Rightarrow> int \<Rightarrow> string list \<Rightarrow> string list" where
  "get_vopr_assignments_fill g revision i vopr_assignments =
     (if i < num_voprs g
      then get_vopr_assignments_fill g revision (i + 1) (vopr_assignments @ [revision])
      else vopr_assignments)"
  by pat_completeness auto
termination
  by (relation "measure (\<lambda>(g, revision, i, vopr_assignments). nat (num_voprs g - i))") auto

declare get_vopr_assignments_fill.simps [simp del]

text \<open>main.go: the first VOPR runs the branch \<open>main\<close>.\<close>

definition get_vopr_assignments :: "globals \<Rightarrow> string list \<Rightarrow> (halt + string list) option" where
  "get_vopr_assignments g vopr_branches =
     (let num_pull_requests = int (length vopr_branches) in
      if num_pull_requests > 0 then
        (case go_div (num_voprs g - 1) num_pull_requests of
           Inl h \<Rightarrow> Some (Inl h)
         | Inr repeats \<Rightarrow>
           (case go_mod (num_voprs g - 1) num_pull_requests of
              Inl h \<Rightarrow> Some (Inl h)
            | Inr remainders \<Rightarrow>
                get_vopr_assignments_loop g vopr_branches repeats remainders 1 0 [''main'']))
      else Some (Inr (get_vopr_assignments_fill g ''main'' 0 [])))"

text \<open>The later revision: the first VOPR runs the commit \<open>get_commits("main")\<close>
  returns, and gets no entry when that is the empty string.\<close>

definition get_vopr_assignments_part001 ::
  "sched_env \<Rightarrow> globals \<Rightarrow> string list \<Rightarrow> (printed \<times> (halt + string list)) option" where
  "get_vopr_assignments_part001 env g vopr_commits =
     (let num_pull_requests = int (length vopr_commits) in
      if num_pull_requests > 0 then
        (case get_commits env g ''main'' of
           (out, Inl h) \<Rightarrow> Some (out, Inl h)
         | (out, Inr commit_hash) \<Rightarrow>
             let vopr_assignments = (if commit_hash \<noteq> [] then [commit_hash] else []) in
             (case go_div (num_voprs g - 1) num_pull_requests of
                Inl h \<Rightarrow> Some (out, Inl h)
              | Inr repeats \<Rightarrow>
                (case go_mod (num_voprs g - 1) num_pull_requests of
                   Inl h \<Rightarrow> Some (out, Inl h)
                 | Inr remainders \<Rightarrow>
                   (case get_vopr_assignments_loop g vopr_commits repeats remainders 1 0
                           vopr_assignments of
                      None \<Rightarrow> None
                    | Some r \<Rightarrow> Some (out, r)))))
      else
        (case get_commits env g ''main'' of
           (out, Inl h) \<Rightarrow> Some (out, Inl h)
         | (out, Inr commit_hash) \<Rightarrow>
             if commit_hash \<noteq> []
             then Some (out, Inr (get_vopr_assignments_fill g commit_hash 0 []))
             else Some (out, Inr [])))"

subsection \<open>main\<close>

text \<open>\<open>fmt.Println\<close> of a slice of strings.\<close>

fun join_spaces :: "string list \<Rightarrow> string" where
  "join_spaces [] = []"
| "join_spaces [x] = x"
| "join_spaces (x # y # rest) = x @ '' '' @ join_spaces (y # rest)"

definition Println :: "string list \<Rightarrow> string" where
  "Println xs = ''['' @ join_spaces xs @ '']'' @ [CHR 0x0A]"

text \<open>The last statement of \<open>main\<close>, the same in both revisions: the checkout of this
  VOPR's assignment into its own directory, under the guard on \<open>current_vopr\<close>. The
  error \<open>checkout_branch\<close> returns is dropped.\<close>

definition main_checkout ::
  "'s exec \<Rightarrow> globals \<Rightarrow> string list \<Rightarrow> 's \<Rightarrow> printed \<times> halt option \<times> 's" where
  "main_checkout exec g vopr_assignments s =
     (if current_vopr g \<le> int (length vopr_assignments) \<and> current_vopr g \<ge> 1 then
        (case go_index vopr_assignments (current_vopr g - 1) of
           Inl h \<Rightarrow> ([], Some h, s)
         | Inr branch \<Rightarrow>
             (case checkout_branch exec branch
                     (tigerbeetle_directory g @ itoa (current_vopr g)) s of
                (out, err, s') \<Rightarrow> (out, None, s')))
      else ([], None, s))"

definition initial_globals :: "bool \<Rightarrow> globals" where
  "initial_globals debug =
     \<lparr>debug_mode = debug, tigerbeetle_directory = [], repository_url = [],
      num_voprs = 0, current_vopr = 0\<rparr>"

text \<open>\<open>main\<close> of main.go. \<open>debug\<close> is the \<open>--debug\<close> flag. The result is what was
  printed, how the process ended (\<open>None\<close>: it returned from \<open>main\<close>) and the state of
  the working copies.\<close>

definition main :: "'s exec \<Rightarrow> sched_env \<Rightarrow> bool \<Rightarrow> 's \<Rightarrow> (printed \<times> halt option \<times> 's) option" where
  "main exec env debug s =
     (case set_environment_variables env (initial_globals debug) of
        (out0, Inl h) \<Rightarrow> Some (out0, Some h, s)
      | (out0, Inr g) \<Rightarrow>
        (case get_pull_requests env g of
           (out1, Inl h) \<Rightarrow> Some (out0 @ out1, Some h, s)
         | (out1, Inr pull_requests) \<Rightarrow>
             let vopr_branches = get_branch_names g pull_requests in
             (case get_vopr_assignments g vopr_branches of
                None \<Rightarrow> None
              | Some (Inl h) \<Rightarrow> Some (out0 @ out1, Some h, s)
              | Some (Inr vopr_assignments) \<Rightarrow>
                  (case main_checkout exec g vopr_assignments s of
                     (out2, ended, s') \<Rightarrow>
                       Some (out0 @ out1 @ [Println vopr_assignments] @ out2, ended, s')))))"

definition main_part001 ::
  "'s exec \<Rightarrow> sched_env \<Rightarrow> bool \<Rightarrow> 's \<Rightarrow> (printed \<times> halt option \<times> 's) option" where
  "main_part001 exec env debug s =
     (case set_environment_variables env (initial_globals debug) of
        (out0, Inl h) \<Rightarrow> Some (out0, Some h, s)
      | (out0, Inr g) \<Rightarrow>
        (case get_commit_hashes env g of
           None \<Rightarrow> None
         | Some (out1, Inl h) \<Rightarrow> Some (out0 @ out1, Some h, s)
         | Some (out1, Inr vopr_commits) \<Rightarrow>
             (case get_vopr_assignments_part001 env g vopr_commits of
                None \<Rightarrow> None
              | Some (out2, Inl h) \<Rightarrow> Some (out0 @ out1 @ out2, Some h, s)
              | Some (out2, Inr vopr_assignments) \<Rightarrow>
                  (case main_checkout exec g vopr_assignments s of
                     (out3, ended, s') \<Rightarrow>
                       Some (out0 @ out1 @ out2 @ [Println vopr_assignments] @ out3,
                             ended, s')))))"

section \<open>Reference definitions for the claims\<close>

subsection \<open>Two ways to hand out slots\<close>

text \<open>\<open>block_assign q r bs\<close>: the entries of \<open>bs\<close> in order, each one \<open>q\<close> times in a row,
  and once more for each of the first \<open>r\<close> entries. \<open>round_robin k bs\<close>: \<open>k\<close> slots that
  take the entries of \<open>bs\<close> in turn, starting again at the first after the last.\<close>

fun block_assign :: "nat \<Rightarrow> nat \<Rightarrow> string list \<Rightarrow> string list" where
  "block_assign q r [] = []"
| "block_assign q r (b # bs) =
     replicate (q + (if r > 0 then 1 else 0)) b @ block_assign q (r - 1) bs"

definition round_robin :: "nat \<Rightarrow> string list \<Rightarrow> string list" where
  "round_robin k bs = map (\<lambda>j. bs ! (j mod length bs)) [0..<k]"


subsection \<open>An example tracker\<close>

text \<open>A tracker with two pages of pull requests (the first one full, with one pull
  request labelled \<open>vopr\<close>; the second one short, with another), three branches with one
  commit each, and a configuration of four VOPRs.\<close>

definition ok_response :: "'a \<Rightarrow> 'a response" where
  "ok_response v = \<lparr>StatusCode = 200, ReadAll_err = None, Body = [], Unmarshal = Inr v\<rparr>"

definition labelled_issue :: "string \<Rightarrow> Issue" where
  "labelled_issue branch =
     \<lparr>Labels = [\<lparr>Name = ''bug''\<rparr>, \<lparr>Name = ''vopr''\<rparr>], Head = \<lparr>Label = ''coilhq:'' @ branch\<rparr>\<rparr>"

definition plain_issue :: Issue where
  "plain_issue = \<lparr>Labels = [\<lparr>Name = ''docs''\<rparr>], Head = \<lparr>Label = ''coilhq:docs''\<rparr>\<rparr>"

definition example_tracker :: sched_env where
  "example_tracker =
     \<lparr>LookupEnv =
        (\<lambda>name. if name = ''TIGERBEETLE_DIRECTORY'' then Some ''/home/voprrunner/tigerbeetle/''
                else if name = ''REPOSITORY_URL'' then Some ''https://tracker/repo''
                else if name = ''NUM_VOPRS'' then Some ''4''
                else if name = ''CURRENT_VOPR'' then Some ''2''
                else None),
      Get_issues =
        (\<lambda>url. if url = ''https://tracker/repo/pulls?per_page=30&page=1''
                 then GetOk (ok_response (labelled_issue ''a'' # replicate 29 plain_issue))
               else if url = ''https://tracker/repo/pulls?per_page=30&page=2''
                 then GetOk (ok_response [labelled_issue ''b''])
               else if url = ''https://tracker/repo''
                 then GetOk (ok_response [labelled_issue ''a'', plain_issue, labelled_issue ''b''])
               else GetError ''no such page''),
      Get_commits =
        (\<lambda>url. if url = ''https://tracker/repo/commits?per_page=1&sha=main''
                 then GetOk (ok_response [\<lparr>Sha = ''c0''\<rparr>])
               else if url = ''https://tracker/repo/commits?per_page=1&sha=a''
                 then GetOk (ok_response [\<lparr>Sha = ''c1''\<rparr>])
               else if url = ''https://tracker/repo/commits?per_page=1&sha=b''
                 then GetOk (ok_response [\<lparr>Sha = ''c2''\<rparr>])
               else GetError ''no such branch'')\<rparr>"

definition example_globals :: globals where
  "example_globals =
     \<lparr>debug_mode = False, tigerbeetle_directory = ''/home/voprrunner/tigerbeetle'',
      repository_url = ''https://tracker/repo'', num_voprs = 4, current_vopr = 2\<rparr>"

text \<open>The example tracker with a branch \<open>main\<close> that has no commit: the request for its
  latest commit is answered with an empty list.\<close>

definition no_main_tracker :: sched_env where
  "no_main_tracker =
     example_tracker\<lparr>Get_commits :=
        (\<lambda>url. if url = ''https://tracker/repo/commits?per_page=1&sha=main''
                 then GetOk (ok_response [])
               else Get_commits example_tracker url)\<rparr>"

subsection \<open>The worker: shorthand for the theorems and an example environment\<close>

text \<open>The equation of \<open>run_simulator\<close> is unfolded by hand, once per mode.\<close>

declare run_simulator.simps [simp del]

text \<open>A worker's surroundings in which seed 7 fails with exit code 129 in both modes,
  the checkout is at commit \<open>0a0b...1d\<close> and the Hub accepts the report; and the same
  with a Hub that cannot be reached.\<close>

definition hub :: address where "hub = ''65.21.207.251:5555''"

definition example_env :: worker_env where
  "example_env =
     \<lparr>child_process =
        (\<lambda>argv. if argv = simulator_argv ''-OReleaseSafe'' 7 then Exited 129
                else if argv = simulator_argv ''-ODebug'' 7 then Exited 129
                else Exited 0),
      git_log = Some ''commit 0a0b0c0d0e0f101112131415161718191a1b1c1d'',
      tcp_connect = (\<lambda>_. True),
      tcp_write = (\<lambda>_. True),
      tcp_read = Some [0x31]\<rparr>"

text \<open>The \<open>switch\<close> of \<open>run_simulator\<close> on its own, the byte \<open>create_report\<close> gives a
  bug kind, and the events the worker records around a send.\<close>

definition exit_code_result :: "u8 \<Rightarrow> Bug option outcome" where
  "exit_code_result c =
     (if c = 0 then Return None
      else if c = 127 then Return (Some crash)
      else if c = 128 then Return (Some liveness)
      else if c = 129 then Return (Some correctness)
      else ZigPanic ''unexpected simulator exit code.'')"


definition bug_byte :: "Bug \<Rightarrow> u8" where
  "bug_byte bg = (case bg of correctness \<Rightarrow> 1 | liveness \<Rightarrow> 2 | crash \<Rightarrow> 3)"


definition rerun_prefix :: "u64 \<Rightarrow> event list" where
  "rerun_prefix sd =
     [Spawn (simulator_argv ''-OReleaseSafe'' sd),
      Print (''exit with code: {}'' @ [CHR 0x0A]),
      Print (''simulator exited with exit code {}.'' @ [CHR 0x0A]),
      Print (''rerunning seed {} in Debug mode.'' @ [CHR 0x0A])]"

definition unreachable_hub_env :: worker_env where
  "unreachable_hub_env = example_env\<lparr>tcp_connect := (\<lambda>_. False)\<rparr>"

text \<open>The two events of the Debug child of a seed that exits with a code; the
  outcome of a step followed by what comes after it (an exit or a panic of the step is
  the outcome of both); and the \<open>assert\<close> on the two bug kinds.\<close>

definition debug_run :: "u64 \<Rightarrow> event list" where
  "debug_run sd =
     [Spawn (simulator_argv ''-ODebug'' sd), Print (''exit with code: {}'' @ [CHR 0x0A])]"

fun then_outcome :: "unit outcome \<Rightarrow> 'a outcome \<Rightarrow> 'a outcome" where
  "then_outcome (Return u) r = r"
| "then_outcome (Exit n) r = Exit n"
| "then_outcome (ZigPanic msg) r = ZigPanic msg"

definition same_bug :: "Bug \<Rightarrow> Bug \<Rightarrow> Bug option outcome" where
  "same_bug b b' = (if b = b' then Return (Some b) else ZigPanic ''reached unreachable code'')"


subsection \<open>An example git\<close>

text \<open>A machine whose only state is the name of the branch checked out: a checkout
  moves to the branch named, \<open>git branch --show-current\<close> prints it on a line of its own
  (the name, then a newline, as git does), and every command succeeds.\<close>

definition toy_git :: "string exec" where
  "toy_git dir argv head_branch =
     (if length argv = 3 \<and> take 2 argv = [''git'', ''checkout'']
        then (\<lparr>cmd_stdout = [], cmd_err = None\<rparr>, argv ! 2)
      else if argv = [''git'', ''branch'', ''--show-current'']
        then (\<lparr>cmd_stdout = head_branch @ [CHR 0x0A], cmd_err = None\<rparr>, head_branch)
      else (\<lparr>cmd_stdout = [], cmd_err = None\<rparr>, head_branch))"

text \<open>The example tracker with \<open>CURRENT_VOPR\<close> set to 9, beyond the four assignments.\<close>

definition far_tracker :: sched_env where
  "far_tracker =
     example_tracker\<lparr>LookupEnv :=
        (\<lambda>name. if name = ''CURRENT_VOPR'' then Some ''9'' else LookupEnv example_tracker name)\<rparr>"

definition far_globals :: globals where
  "far_globals = example_globals\<lparr>current_vopr := 9\<rparr>"

subsection \<open>Reading the configuration\<close>

text \<open>A variable is present when it is set to a non-empty value, and a positive integer
  when \<open>strconv.Atoi\<close> reads a value above 0 from it. A call ends with an error when it
  ends the process and the last line it printed is the error line with the message.
  Two more environments: one with nothing set, and the example tracker with
  \<open>NUM_VOPRS=four\<close>.\<close>

definition present :: "sched_env \<Rightarrow> string \<Rightarrow> bool" where
  "present env name = (case LookupEnv env name of None \<Rightarrow> False | Some v \<Rightarrow> v \<noteq> [])"

definition positive_int :: "sched_env \<Rightarrow> string \<Rightarrow> bool" where
  "positive_int env name =
     (case LookupEnv env name of
        None \<Rightarrow> False
      | Some v \<Rightarrow> (case Atoi v of Inl err \<Rightarrow> False | Inr n \<Rightarrow> 0 < n))"

definition ends_with_error :: "printed \<times> (halt + globals) \<Rightarrow> string \<Rightarrow> halt \<Rightarrow> bool" where
  "ends_with_error r message h =
     (snd r = Inl h \<and> fst r \<noteq> [] \<and> last (fst r) = ''error: '' @ message @ [CHR 0x0A])"

definition non_integer_env :: sched_env where
  "non_integer_env =
     example_tracker\<lparr>LookupEnv :=
        (\<lambda>name. if name = ''NUM_VOPRS'' then Some ''four'' else LookupEnv example_tracker name)\<rparr>"

definition empty_env :: sched_env where
  "empty_env = example_tracker\<lparr>LookupEnv := (\<lambda>name. None)\<rparr>"

subsection \<open>Revision enumeration, as described\<close>

text \<open>The enumeration in the words of its description, over what the tracker answers,
  to be compared with \<open>get_commit_hashes\<close>. The tracker answers a request when the
  request succeeds with a status of at most 299 and a body that can be read and
  decoded. Page \<open>j\<close> of the open pull requests is its answer for 30 entries a page; the
  commit at the head of a branch is the first of the list it answers for that branch
  (the empty string when the list is empty).\<close>

definition answer :: "'a http_get \<Rightarrow> 'a option" where
  "answer got =
     (case got of
        GetError err \<Rightarrow> None
      | GetOk res \<Rightarrow>
          if StatusCode res \<le> 299 \<and> ReadAll_err res = None
          then (case Unmarshal res of Inl err \<Rightarrow> None | Inr v \<Rightarrow> Some v)
          else None)"

definition tracker_page :: "sched_env \<Rightarrow> globals \<Rightarrow> int \<Rightarrow> Issue list option" where
  "tracker_page env g j =
     answer (Get_issues env (repository_url g @ ''/pulls?per_page=30&page='' @ itoa j))"

definition head_of_branch :: "sched_env \<Rightarrow> globals \<Rightarrow> string \<Rightarrow> string option" where
  "head_of_branch env g branch_name =
     (case answer (Get_commits env
                     (repository_url g @ ''/commits?per_page=1&sha='' @ branch_name)) of
        None \<Rightarrow> None
      | Some [] \<Rightarrow> Some []
      | Some (c # older) \<Rightarrow> Some (Sha c))"

text \<open>A pull request is kept when one of its labels is named \<open>vopr\<close>. Its branch is
  what follows the first colon of the head's label \<open>owner:branch_name\<close>, when there is
  a colon with something after it. A kept pull request gives the commit id at the head
  of its branch, and nothing when it has no branch or that id is empty; a page gives
  the commits of its pull requests in their order, and \<open>collected\<close> is what the pages 1
  to \<open>k\<close> give together.\<close>

definition vopr_labelled :: "Issue \<Rightarrow> bool" where
  "vopr_labelled e = list_ex (\<lambda>l. Name l = ''vopr'') (Labels e)"

definition head_branch :: "Issue \<Rightarrow> string option" where
  "head_branch e =
     (case Cut (Label (Head e)) '':'' of
        (before, branch_name, found) \<Rightarrow>
          if found \<and> branch_name \<noteq> [] then Some branch_name else None)"

definition head_commit :: "sched_env \<Rightarrow> globals \<Rightarrow> Issue \<Rightarrow> string list" where
  "head_commit env g e =
     (case head_branch e of
        None \<Rightarrow> []
      | Some branch_name \<Rightarrow>
          (case head_of_branch env g branch_name of
             None \<Rightarrow> []
           | Some c \<Rightarrow> if c \<noteq> [] then [c] else []))"

definition kept_commit :: "sched_env \<Rightarrow> globals \<Rightarrow> Issue \<Rightarrow> string list" where
  "kept_commit env g e = (if vopr_labelled e then head_commit env g e else [])"

definition page_commits :: "sched_env \<Rightarrow> globals \<Rightarrow> Issue list \<Rightarrow> string list" where
  "page_commits env g pull_requests = concat (map (kept_commit env g) pull_requests)"

definition collected :: "sched_env \<Rightarrow> globals \<Rightarrow> (int \<Rightarrow> Issue list) \<Rightarrow> int \<Rightarrow> string list" where
  "collected env g pages k = concat (map (\<lambda>j. page_commits env g (pages j)) [1..k])"

text \<open>A pull request resolves when it is not kept, has no branch, or the tracker answers
  for its branch. The pull requests of a page that are looked at when \<open>n\<close> more commits
  are asked for: those up to the one that gives the last of the \<open>n\<close>.\<close>

definition resolves :: "sched_env \<Rightarrow> globals \<Rightarrow> Issue \<Rightarrow> bool" where
  "resolves env g e =
     (if vopr_labelled e
      then (case head_branch e of
              None \<Rightarrow> True
            | Some branch_name \<Rightarrow> head_of_branch env g branch_name \<noteq> None)
      else True)"

fun needed :: "sched_env \<Rightarrow> globals \<Rightarrow> nat \<Rightarrow> Issue list \<Rightarrow> Issue list" where
  "needed env g n [] = []"
| "needed env g n (e # later) =
     (if n = 0 then [] else e # needed env g (n - length (kept_commit env g e)) later)"

text \<open>The two pages of the example tracker; and a tracker whose first page has, after
  the pull request of branch \<open>a\<close>, one of a branch that the tracker does not know.\<close>

definition example_pages :: "int \<Rightarrow> Issue list" where
  "example_pages j = (if j = 1 then labelled_issue ''a'' # replicate 29 plain_issue
                      else [labelled_issue ''b''])"

definition stale_page :: "Issue list" where
  "stale_page = labelled_issue ''a'' # labelled_issue ''gone'' # replicate 28 plain_issue"

definition stale_tracker :: sched_env where
  "stale_tracker =
     example_tracker\<lparr>Get_issues :=
        (\<lambda>url. if url = ''https://tracker/repo/pulls?per_page=30&page=1''
                 then GetOk (ok_response stale_page)
               else Get_issues example_tracker url)\<rparr>"

section \<open>The assignment loop in closed form\<close>

lemma repeats_done:
  "repeats \<le> j \<Longrightarrow> get_vopr_assignments_repeats bs k repeats j i va = Inr (va, i)"
  by (subst get_vopr_assignments_repeats.simps) simp

lemma repeats_run:
  "0 \<le> k \<Longrightarrow> k < int (length bs) \<Longrightarrow>
   get_vopr_assignments_repeats bs k repeats j i va =
     Inr (va @ replicate (nat (repeats - j)) (bs ! nat k), i + max 0 (repeats - j))"
proof (induction bs k repeats j i va rule: get_vopr_assignments_repeats.induct)
  case (1 bs k repeats j i va)
  show ?case
  proof (cases "j < repeats")
    case True
    then have n: "nat (repeats - j) = Suc (nat (repeats - (j + 1)))" by simp
    have idx: "go_index bs k = Inr (bs ! nat k)"
      using "1.prems" by (simp add: go_index_def)
    have "get_vopr_assignments_repeats bs k repeats j i va =
          get_vopr_assignments_repeats bs k repeats (j + 1) (i + 1) (va @ [bs ! nat k])"
      using True idx by (subst get_vopr_assignments_repeats.simps) simp
    also have "\<dots> = Inr ((va @ [bs ! nat k]) @ replicate (nat (repeats - (j + 1))) (bs ! nat k),
                        (i + 1) + max 0 (repeats - (j + 1)))"
      using "1.IH" [OF True idx] "1.prems" by simp
    finally show ?thesis using True n by (simp add: replicate_append_same)
  next
    case False
    then show ?thesis by (subst get_vopr_assignments_repeats.simps) simp
  qed
qed

lemma block_assign_zero: "block_assign 0 0 bs = []"
  by (induction bs) auto

lemma length_block_assign:
  "length (block_assign q r bs) = q * length bs + min r (length bs)"
  by (induction bs arbitrary: r) auto

lemma loop_closed:
  "d = length bs - k \<Longrightarrow> k \<le> length bs \<Longrightarrow> 0 \<le> q \<Longrightarrow> 0 \<le> r \<Longrightarrow> nat r \<le> length bs - k \<Longrightarrow>
   i + q * int (length bs - k) + r = num_voprs g \<Longrightarrow>
   get_vopr_assignments_loop g bs q r i (int k) va =
     Some (Inr (va @ block_assign (nat q) (nat r) (drop k bs)))"
proof (induction d arbitrary: k r i va)
  case 0
  then have "k = length bs" "r = 0" "i = num_voprs g" by auto
  then show ?case
    by (subst get_vopr_assignments_loop.simps) simp
next
  case (Suc d)
  then have k: "k < length bs" by simp
  have dr: "drop k bs = bs ! k # drop (Suc k) bs"
    using k by (simp add: Cons_nth_drop_Suc)
  show ?case
  proof (cases "i < num_voprs g")
    case False
    define t where "t = q * int (length bs - k)"
    have "t + r \<le> 0" using False Suc.prems by (simp add: t_def)
    moreover have "0 \<le> t" using Suc.prems by (simp add: t_def)
    ultimately have "r = 0" "t = 0" using Suc.prems by linarith+
    then have "q = 0" using k by (simp add: t_def)
    then show ?thesis using False \<open>r = 0\<close>
      by (subst get_vopr_assignments_loop.simps) (simp add: block_assign_zero)
  next
    case True
    have rep: "get_vopr_assignments_repeats bs (int k) q 0 i va =
               Inr (va @ replicate (nat q) (bs ! k), i + q)"
      using repeats_run [of "int k" bs q 0 i va] k Suc.prems by simp
    have idx: "go_index bs (int k) = Inr (bs ! k)"
      using k by (simp add: go_index_def)
    show ?thesis
    proof (cases "r > 0")
      case rpos: True
      have "get_vopr_assignments_loop g bs q (r - 1) (i + q + 1) (int (Suc k))
              ((va @ replicate (nat q) (bs ! k)) @ [bs ! k]) =
            Some (Inr (((va @ replicate (nat q) (bs ! k)) @ [bs ! k])
                        @ block_assign (nat q) (nat (r - 1)) (drop (Suc k) bs)))"
      proof (rule Suc.IH)
        show "d = length bs - Suc k" using Suc.prems by simp
        show "Suc k \<le> length bs" using k by simp
        show "0 \<le> q" using Suc.prems by simp
        show "0 \<le> r - 1" using rpos by simp
        show "nat (r - 1) \<le> length bs - Suc k" using Suc.prems rpos by simp
        have "int (length bs - k) = int (length bs - Suc k) + 1" using k by simp
        then show "i + q + 1 + q * int (length bs - Suc k) + (r - 1) = num_voprs g"
          using Suc.prems by (simp add: algebra_simps)
      qed
      moreover have "nat r - 1 = nat (r - 1)" by simp
      ultimately show ?thesis using True rpos rep idx dr
        by (subst get_vopr_assignments_loop.simps)
           (simp add: replicate_append_same add.commute)
    next
      case rz: False
      then have r0: "r = 0" using Suc.prems by simp
      have "get_vopr_assignments_loop g bs q r (i + q) (int (Suc k))
              (va @ replicate (nat q) (bs ! k)) =
            Some (Inr ((va @ replicate (nat q) (bs ! k))
                        @ block_assign (nat q) (nat r) (drop (Suc k) bs)))"
      proof (rule Suc.IH)
        show "d = length bs - Suc k" using Suc.prems by simp
        show "Suc k \<le> length bs" using k by simp
        show "0 \<le> q" using Suc.prems by simp
        show "0 \<le> r" using r0 by simp
        show "nat r \<le> length bs - Suc k" using r0 by simp
        have "int (length bs - k) = int (length bs - Suc k) + 1" using k by simp
        then show "i + q + q * int (length bs - Suc k) + r = num_voprs g"
          using Suc.prems by (simp add: algebra_simps)
      qed
      then show ?thesis using True rz r0 rep dr
        by (subst get_vopr_assignments_loop.simps) (simp add: add.commute)
    qed
  qed
qed


lemma sdiv_nonneg: "0 \<le> a \<Longrightarrow> 0 < b \<Longrightarrow> (a::int) sdiv b = a div b"
  by (cases "a = 0") (simp_all add: signed_divide_int_def)

lemma smod_nonneg: "0 \<le> a \<Longrightarrow> 0 < b \<Longrightarrow> (a::int) smod b = a mod b"
  by (cases "a = 0") (simp_all add: signed_modulo_int_def)

lemma fill_closed:
  "get_vopr_assignments_fill g revision i va = va @ replicate (nat (num_voprs g - i)) revision"
proof (induction g revision i va rule: get_vopr_assignments_fill.induct)
  case (1 g revision i va)
  show ?case
  proof (cases "i < num_voprs g")
    case True
    then have "nat (num_voprs g - i) = Suc (nat (num_voprs g - (i + 1)))" by simp
    then show ?thesis using True "1.IH" [OF True]
      by (subst get_vopr_assignments_fill.simps) (simp add: replicate_append_same)
  next
    case False
    then show ?thesis by (subst get_vopr_assignments_fill.simps) simp
  qed
qed



lemma loop_start:
  assumes "bs \<noteq> []"
  shows "get_vopr_assignments_loop g bs ((num_voprs g - 1) sdiv int (length bs))
           ((num_voprs g - 1) smod int (length bs)) 1 0 va =
         Some (Inr (va @ block_assign (nat ((num_voprs g - 1) sdiv int (length bs)))
                            (nat ((num_voprs g - 1) smod int (length bs))) bs))"
proof (cases "1 < num_voprs g")
  case False
  then have "num_voprs g - 1 \<le> 0" by simp
  have m0: "0 < int (length bs)" using assms by simp
  have "(num_voprs g - 1) sdiv int (length bs) \<le> 0"
  proof (cases "num_voprs g - 1 = 0")
    case True
    then show ?thesis by (simp add: signed_divide_int_def)
  next
    case False
    with \<open>num_voprs g - 1 \<le> 0\<close> have neg: "num_voprs g - 1 < 0" by simp
    have "0 \<le> \<bar>num_voprs g - 1\<bar> div \<bar>int (length bs)\<bar>"
      using m0 by (simp add: pos_imp_zdiv_nonneg_iff)
    then show ?thesis using neg m0
      by (simp add: signed_divide_int_def sgn_if)
  qed
  moreover have "(num_voprs g - 1) smod int (length bs) \<le> 0"
  proof (cases "num_voprs g - 1 = 0")
    case True
    then show ?thesis by (simp add: signed_modulo_int_def)
  next
    case False
    with \<open>num_voprs g - 1 \<le> 0\<close> have neg: "num_voprs g - 1 < 0" by simp
    have "0 \<le> \<bar>num_voprs g - 1\<bar> mod \<bar>int (length bs)\<bar>"
      using m0 by simp
    then show ?thesis using neg
      by (simp add: signed_modulo_int_def sgn_if)
  qed
  ultimately have "(num_voprs g - 1) sdiv int (length bs) \<le> 0"
            "(num_voprs g - 1) smod int (length bs) \<le> 0" by simp_all
  then have "nat ((num_voprs g - 1) sdiv int (length bs)) = 0"
            "nat ((num_voprs g - 1) smod int (length bs)) = 0" by simp_all
  moreover have "get_vopr_assignments_loop g bs ((num_voprs g - 1) sdiv int (length bs))
           ((num_voprs g - 1) smod int (length bs)) 1 0 va = Some (Inr va)"
    using False by (subst get_vopr_assignments_loop.simps) simp
  ultimately show ?thesis
    by (simp add: block_assign_zero)
next
  case True
  let ?m = "int (length bs)"
  have m: "0 < ?m" using assms by simp
  have q: "(num_voprs g - 1) sdiv ?m = (num_voprs g - 1) div ?m"
    using True m by (intro sdiv_nonneg) simp_all
  have r: "(num_voprs g - 1) smod ?m = (num_voprs g - 1) mod ?m"
    using True m by (intro smod_nonneg) simp_all
  have "get_vopr_assignments_loop g bs ((num_voprs g - 1) div ?m) ((num_voprs g - 1) mod ?m)
          1 (int 0) va =
        Some (Inr (va @ block_assign (nat ((num_voprs g - 1) div ?m))
                           (nat ((num_voprs g - 1) mod ?m)) (drop 0 bs)))"
  proof (rule loop_closed [OF refl])
    show "0 \<le> length bs" by simp
    show "0 \<le> (num_voprs g - 1) div ?m" using True m by (simp add: pos_imp_zdiv_nonneg_iff)
    show "0 \<le> (num_voprs g - 1) mod ?m" using m by simp
    have "(num_voprs g - 1) mod ?m < ?m" using m by simp
    then show "nat ((num_voprs g - 1) mod ?m) \<le> length bs - 0" by simp
    have "(num_voprs g - 1) div ?m * ?m + (num_voprs g - 1) mod ?m = num_voprs g - 1"
      by simp
    then show "1 + (num_voprs g - 1) div ?m * int (length bs - 0)
                 + (num_voprs g - 1) mod ?m = num_voprs g"
      by simp
  qed
  then show ?thesis using q r by simp
qed


lemma assignments_closed:
  assumes "bs \<noteq> []"
  shows "get_vopr_assignments g bs =
         Some (Inr (''main'' # block_assign (nat ((num_voprs g - 1) sdiv int (length bs)))
                                (nat ((num_voprs g - 1) smod int (length bs))) bs))"
  using assms loop_start [OF assms, of g "[''main'']"]
  by (simp add: get_vopr_assignments_def go_div_def go_mod_def Let_def)

lemma assignments_empty:
  "get_vopr_assignments g [] = Some (Inr (replicate (nat (num_voprs g)) ''main''))"
  by (simp add: get_vopr_assignments_def fill_closed)

lemma assignments_part001_closed:
  assumes "bs \<noteq> []" and "get_commits env g ''main'' = (out, Inr c)"
  shows "get_vopr_assignments_part001 env g bs =
         Some (out, Inr ((if c \<noteq> [] then [c] else [])
                          @ block_assign (nat ((num_voprs g - 1) sdiv int (length bs)))
                                (nat ((num_voprs g - 1) smod int (length bs))) bs))"
  using assms loop_start [OF assms(1), of g "if c \<noteq> [] then [c] else []"]
  by (simp add: get_vopr_assignments_part001_def go_div_def go_mod_def Let_def)

lemma assignments_part001_halt:
  assumes "get_commits env g ''main'' = (out, Inl h)"
  shows "get_vopr_assignments_part001 env g bs = Some (out, Inl h)"
  using assms by (simp add: get_vopr_assignments_part001_def Let_def)

lemma assignments_part001_empty:
  assumes "get_commits env g ''main'' = (out, Inr c)"
  shows "get_vopr_assignments_part001 env g [] =
         Some (out, Inr (if c \<noteq> [] then replicate (nat (num_voprs g)) c else []))"
  using assms by (simp add: get_vopr_assignments_part001_def fill_closed)


lemma example_main_commit:
  "get_commits example_tracker example_globals ''main'' = ([], Inr ''c0'')"
  by (simp add: get_commits_def decode_response_def example_tracker_def example_globals_def
        ok_response_def)

lemma decode_response_panics:
  "snd (decode_response got) \<noteq> Inl (GoPanic IntegerDivideByZero)
   \<and> snd (decode_response got) \<noteq> Inl (GoPanic IndexOutOfRange)"
  by (simp add: decode_response_def split: http_get.splits option.splits sum.splits)

lemma get_commits_panics:
  "snd (get_commits env g b) \<noteq> Inl (GoPanic IntegerDivideByZero)
   \<and> snd (get_commits env g b) \<noteq> Inl (GoPanic IndexOutOfRange)"
  using decode_response_panics
          [of "Get_commits env (repository_url g @ ''/commits?per_page=1&sha='' @ b)"]
  by (auto simp add: get_commits_def split: prod.splits sum.splits)

lemma assignments_part001_total:
  "\<exists>out r. get_vopr_assignments_part001 env g cs = Some (out, r)
     \<and> r \<noteq> Inl (GoPanic IntegerDivideByZero) \<and> r \<noteq> Inl (GoPanic IndexOutOfRange)"
proof (cases "get_commits env g ''main''")
  case (Pair out res)
  show ?thesis
  proof (cases res)
    case (Inl h)
    then have "get_vopr_assignments_part001 env g cs = Some (out, Inl h)"
      using Pair by (simp add: assignments_part001_halt)
    moreover have "h \<noteq> GoPanic IntegerDivideByZero \<and> h \<noteq> GoPanic IndexOutOfRange"
      using get_commits_panics [of env g "''main''"] Pair Inl by simp
    ultimately show ?thesis by simp
  next
    case (Inr c)
    then have gc: "get_commits env g ''main'' = (out, Inr c)" using Pair by simp
    show ?thesis
    proof (cases "cs = []")
      case True
      then show ?thesis using assignments_part001_empty [OF gc] by simp
    next
      case False
      then show ?thesis using assignments_part001_closed [OF False gc] by simp
    qed
  qed
qed

text \<open>
  Claim C5, as the code has it. For \<open>num_voprs \<ge> 1\<close> and a non-empty list of branches (or
  commits), \<open>get_vopr_assignments\<close> returns a list of exactly \<open>num_voprs\<close> entries: the
  mainline revision first (\<open>main\<close> in main.go; in the later revision the commit
  \<open>get_commits("main")\<close> gave, when it is not empty), then the entries of the list in
  order, each in a block of \<open>(num_voprs - 1) div m\<close> consecutive slots, one slot more for
  each of the first \<open>(num_voprs - 1) mod m\<close> entries (\<open>m\<close> the length of the list). The
  slots are handed out in blocks, not in turn.
\<close>

theorem assignments_blocks:
  assumes "1 \<le> num_voprs g" and "vopr_branches \<noteq> []"
  shows "get_vopr_assignments g vopr_branches =
           Some (Inr (''main'' #
             block_assign (nat ((num_voprs g - 1) div int (length vopr_branches)))
               (nat ((num_voprs g - 1) mod int (length vopr_branches))) vopr_branches))
       \<and> length (''main'' #
             block_assign (nat ((num_voprs g - 1) div int (length vopr_branches)))
               (nat ((num_voprs g - 1) mod int (length vopr_branches))) vopr_branches)
           = nat (num_voprs g)
       \<and> (\<forall>env out c. get_commits env g ''main'' = (out, Inr c) \<longrightarrow> c \<noteq> [] \<longrightarrow>
            get_vopr_assignments_part001 env g vopr_branches =
              Some (out, Inr (c #
                block_assign (nat ((num_voprs g - 1) div int (length vopr_branches)))
                  (nat ((num_voprs g - 1) mod int (length vopr_branches))) vopr_branches)))"
proof -
  let ?m = "int (length vopr_branches)"
  have m: "0 < ?m" using assms(2) by simp
  have q: "(num_voprs g - 1) sdiv ?m = (num_voprs g - 1) div ?m"
    using assms(1) m by (intro sdiv_nonneg) simp_all
  have r: "(num_voprs g - 1) smod ?m = (num_voprs g - 1) mod ?m"
    using assms(1) m by (intro smod_nonneg) simp_all
  have first: "get_vopr_assignments g vopr_branches =
           Some (Inr (''main'' #
             block_assign (nat ((num_voprs g - 1) div ?m))
               (nat ((num_voprs g - 1) mod ?m)) vopr_branches))"
    using assignments_closed [OF assms(2), of g] q r by simp
  have "(num_voprs g - 1) mod ?m < ?m" using m by simp
  then have le: "nat ((num_voprs g - 1) mod ?m) \<le> length vopr_branches" by simp
  have q0: "0 \<le> (num_voprs g - 1) div ?m"
    using assms(1) m by (simp add: pos_imp_zdiv_nonneg_iff)
  have r0: "0 \<le> (num_voprs g - 1) mod ?m" using m by simp
  have "int (nat ((num_voprs g - 1) div ?m) * length vopr_branches
             + nat ((num_voprs g - 1) mod ?m))
        = (num_voprs g - 1) div ?m * ?m + (num_voprs g - 1) mod ?m"
    using q0 r0 by simp
  also have "\<dots> = num_voprs g - 1" by simp
  finally have "nat ((num_voprs g - 1) div ?m) * length vopr_branches
             + nat ((num_voprs g - 1) mod ?m) = nat (num_voprs g - 1)"
    by linarith
  then have second: "length (''main'' #
             block_assign (nat ((num_voprs g - 1) div ?m))
               (nat ((num_voprs g - 1) mod ?m)) vopr_branches) = nat (num_voprs g)"
    using le assms(1) by (simp add: length_block_assign min_absorb1)
  have third: "\<forall>env out c. get_commits env g ''main'' = (out, Inr c) \<longrightarrow> c \<noteq> [] \<longrightarrow>
            get_vopr_assignments_part001 env g vopr_branches =
              Some (out, Inr (c #
                block_assign (nat ((num_voprs g - 1) div ?m))
                  (nat ((num_voprs g - 1) mod ?m)) vopr_branches))"
    using assignments_part001_closed [OF assms(2), of _ g] q r by simp
  show ?thesis using first second third by blast
qed

theorem assignments_blocks_witness:
  "get_vopr_assignments example_globals [''a'', ''b''] = Some (Inr [''main'', ''a'', ''a'', ''b''])
   \<and> length [''main'', ''a'', ''a'', ''b''] = nat (num_voprs example_globals)
   \<and> get_vopr_assignments_part001 example_tracker example_globals [''c1'', ''c2'']
       = Some ([], Inr [''c0'', ''c1'', ''c1'', ''c2''])"
proof -
  have n: "1 \<le> num_voprs example_globals" by (simp add: example_globals_def)
  have ne: "[''a'', ''b''] \<noteq> ([] :: string list)" by simp
  have ne2: "[''c1'', ''c2''] \<noteq> ([] :: string list)" by simp
  have c0: "''c0'' \<noteq> ([] :: string)" by simp
  show ?thesis
    using assignments_blocks [OF n ne] assignments_blocks [OF n ne2] example_main_commit c0
    by (simp add: example_globals_def)
qed

text \<open>
  Claim C5 as stated fails on the order: with four VOPRs and the branches \<open>a\<close>, \<open>b\<close>
  the code assigns \<open>main, a, a, b\<close>, where slots taken in turn would be \<open>main, a, b, a\<close>.
\<close>

theorem assignments_not_round_robin:
  "get_vopr_assignments example_globals [''a'', ''b''] = Some (Inr [''main'', ''a'', ''a'', ''b''])
   \<and> ''main'' # round_robin 3 [''a'', ''b''] = [''main'', ''a'', ''b'', ''a'']
   \<and> get_vopr_assignments example_globals [''a'', ''b'']
       \<noteq> Some (Inr (''main'' # round_robin 3 [''a'', ''b'']))"
  by (simp add: assignments_closed example_globals_def signed_divide_int_def
        signed_modulo_int_def round_robin_def upt_rec)

lemma no_main_commit:
  "get_commits no_main_tracker example_globals ''main'' = ([], Inr [])"
  by (simp add: get_commits_def decode_response_def no_main_tracker_def example_globals_def
        ok_response_def)

text \<open>
  Claim C9, as the code has it. The division and the remainder by the number of
  branches are only reached when that number is positive: for every \<open>num_voprs\<close> and
  every list, \<open>get_vopr_assignments\<close> returns a list (it neither panics nor runs
  forever), and the later revision returns with an outcome that is not a division by
  zero. With an empty list every one of the \<open>num_voprs\<close> slots gets the mainline
  revision: the name \<open>main\<close> in main.go, and in the later revision the commit id that
  \<open>get_commits("main")\<close> gave. When that commit id is the empty string the later
  revision assigns no slot at all, and when the lookup panics so does the call.
\<close>

theorem assignments_never_divide_by_zero:
  "(\<exists>r. get_vopr_assignments g vopr_branches = Some (Inr r))
   \<and> get_vopr_assignments g [] = Some (Inr (replicate (nat (num_voprs g)) ''main''))
   \<and> (\<exists>out r. get_vopr_assignments_part001 env g vopr_branches = Some (out, r)
          \<and> r \<noteq> Inl (GoPanic IntegerDivideByZero))
   \<and> (\<forall>out c. get_commits env g ''main'' = (out, Inr c) \<longrightarrow>
          get_vopr_assignments_part001 env g [] =
            Some (out, Inr (if c = [] then [] else replicate (nat (num_voprs g)) c)))
   \<and> (\<forall>out h. get_commits env g ''main'' = (out, Inl h) \<longrightarrow>
          get_vopr_assignments_part001 env g [] = Some (out, Inl h))"
proof -
  have a: "\<exists>r. get_vopr_assignments g vopr_branches = Some (Inr r)"
  proof (cases "vopr_branches = []")
    case True
    then show ?thesis by (simp add: assignments_empty)
  next
    case False
    then show ?thesis by (simp add: assignments_closed)
  qed
  have c: "\<exists>out r. get_vopr_assignments_part001 env g vopr_branches = Some (out, r)
          \<and> r \<noteq> Inl (GoPanic IntegerDivideByZero)"
    using assignments_part001_total [of env g vopr_branches] by blast
  have d: "\<forall>out c. get_commits env g ''main'' = (out, Inr c) \<longrightarrow>
          get_vopr_assignments_part001 env g [] =
            Some (out, Inr (if c = [] then [] else replicate (nat (num_voprs g)) c))"
    by (simp add: assignments_part001_empty)
  have e: "\<forall>out h. get_commits env g ''main'' = (out, Inl h) \<longrightarrow>
          get_vopr_assignments_part001 env g [] = Some (out, Inl h)"
    by (simp add: assignments_part001_halt)
  show ?thesis
    by (intro conjI) (rule a assignments_empty c d e)+
qed

theorem assignments_never_divide_by_zero_witness:
  "get_vopr_assignments example_globals [] = Some (Inr [''main'', ''main'', ''main'', ''main''])
   \<and> get_vopr_assignments_part001 example_tracker example_globals []
       = Some ([], Inr [''c0'', ''c0'', ''c0'', ''c0''])
   \<and> get_vopr_assignments_part001 no_main_tracker example_globals [] = Some ([], Inr [])"
proof -
  have four: "replicate (nat (num_voprs example_globals)) x = [x, x, x, x]" for x :: string
    by (simp add: example_globals_def numeral_eq_Suc)
  note t = assignments_never_divide_by_zero [of example_globals "[]"]
  have one: "get_vopr_assignments example_globals []
               = Some (Inr [''main'', ''main'', ''main'', ''main''])"
    using t [of example_tracker, THEN conjunct2, THEN conjunct1] by (simp add: four)
  have two: "get_vopr_assignments_part001 example_tracker example_globals []
       = Some ([], Inr [''c0'', ''c0'', ''c0'', ''c0''])"
    using t [of example_tracker, THEN conjunct2, THEN conjunct2, THEN conjunct2,
             THEN conjunct1, rule_format, OF example_main_commit]
    by (simp add: four)
  have three: "get_vopr_assignments_part001 no_main_tracker example_globals [] = Some ([], Inr [])"
    using t [of no_main_tracker, THEN conjunct2, THEN conjunct2, THEN conjunct2,
             THEN conjunct1, rule_format, OF no_main_commit]
    by simp
  show ?thesis by (intro conjI) (rule one two three)+
qed

text \<open>
  Claim C9 as stated fails in the later revision: with four VOPRs, no labelled pull
  request and a tracker that has no commit for \<open>main\<close>, no slot is assigned, where the
  claim has every slot assigned the mainline revision.
\<close>

theorem empty_main_commit_assigns_no_slot:
  "get_commits no_main_tracker example_globals ''main'' = ([], Inr [])
   \<and> num_voprs example_globals = 4
   \<and> get_vopr_assignments_part001 no_main_tracker example_globals [] = Some ([], Inr [])
   \<and> length ([] :: string list) \<noteq> nat (num_voprs example_globals)"
  by (simp add: no_main_commit assignments_part001_empty [OF no_main_commit])
     (simp add: example_globals_def)

section \<open>The worker, case by case\<close>

lemma run_simulator_Debug:
  "run_simulator env sd Debug addr =
     and_then (run_child_process env (simulator_argv ''-ODebug'' sd))
       (\<lambda>exit_code.
          and_then
            (if exit_code = 0 then ([], Return None)
             else if exit_code = 127 then ([], Return (Some crash))
             else if exit_code = 128 then ([], Return (Some liveness))
             else if exit_code = 129 then ([], Return (Some correctness))
             else ([Print ''unexpected simulator exit code: {}''],
                   ZigPanic ''unexpected simulator exit code.''))
            (\<lambda>result.
               case result of
                 None \<Rightarrow> ([], Return result)
               | Some bg \<Rightarrow>
                   (case addr of
                      None \<Rightarrow> ([], Return result)
                    | Some hub_address \<Rightarrow>
                        and_then (send_report env hub_address bg sd)
                          (\<lambda>_. ([], Return result)))))"
  by (subst run_simulator.simps) (simp cong: option.case_cong)

lemma run_child_Exited:
  "child_process env argv = Exited c \<Longrightarrow>
   run_child_process env argv =
     ([Spawn argv, Print (''exit with code: {}'' @ [CHR 0x0A])], Return c)"
  by (simp add: run_child_process_def)

lemma debug_no_address:
  assumes "child_process env (simulator_argv ''-ODebug'' sd) = Exited c"
  shows "snd (run_simulator env sd Debug None) = exit_code_result c"
  by (simp add: run_simulator_Debug run_child_Exited [OF assms] and_then_def exit_code_result_def)

lemma debug_returns:
  assumes "child_process env (simulator_argv ''-ODebug'' sd) = Exited c"
    and "snd (run_simulator env sd Debug addr) = Return r"
  shows "exit_code_result c = Return r"
  using assms(2)
  by (auto simp add: run_simulator_Debug run_child_Exited [OF assms(1)] and_then_def
        exit_code_result_def split: if_splits option.splits prod.splits outcome.splits)

lemma create_report_cases:
  "create_report env bg sd =
     (case git_log env of
        None \<Rightarrow>
          ([Print (''Collecting VOPR bug and seed, and the current git commit hash.'' @ [CHR 0x0A]),
            Exec [''git'', ''log'', ''-1''],
            Print (''error: '' @ ''unable to extract TigerBeetle's git commit hash. Error: {}''
                   @ [CHR 0x0A])], Exit 1)
      | Some lg \<Rightarrow>
          if length lg < 47 then
            ([Print (''Collecting VOPR bug and seed, and the current git commit hash.'' @ [CHR 0x0A]),
              Exec [''git'', ''log'', ''-1'']], ZigPanic ''index out of bounds'')
          else
            (case hexToBytes (take 40 (drop 7 lg)) of
               None \<Rightarrow>
                 ([Print (''Collecting VOPR bug and seed, and the current git commit hash.''
                          @ [CHR 0x0A]),
                   Exec [''git'', ''log'', ''-1''],
                   Print (''git commit that was retrieved: {s}'' @ [CHR 0x0A]),
                   Print (''error: '' @ ''unable to cast the git commit hash to hex. Error: {}''
                          @ [CHR 0x0A])], Exit 1)
             | Some cb \<Rightarrow>
                 ([Print (''Collecting VOPR bug and seed, and the current git commit hash.''
                          @ [CHR 0x0A]),
                   Exec [''git'', ''log'', ''-1''],
                   Print (''git commit that was retrieved: {s}'' @ [CHR 0x0A])],
                  Return \<lparr>bug = bug_byte bg, seed = sd, commit = cb\<rparr>)))"
  by (simp add: create_report_def and_then_def fatal_def bug_byte_def Let_def
        split: option.splits)

lemma bug_byte_range: "bug_byte bg = 1 \<or> bug_byte bg = 2 \<or> bug_byte bg = 3"
  by (cases bg) (simp_all add: bug_byte_def)

lemma send_report_after_create:
  assumes "create_report env bg sd = (ev, Return message)"
  shows "send_report env addr bg sd =
     (let byte_array = [bug message] @ bitCast_u64 (byteSwap (seed message)) @ commit message in
      if \<not> tcp_connect env addr then
        (ev @ [Connect addr,
               Print (''error: '' @ ''unable to create a connection to the VOPR Hub. Error: {}''
                      @ [CHR 0x0A])], Exit 1)
      else if \<not> tcp_write env byte_array then
        (ev @ [Connect addr, Print ''Connected to VOPR Hub.'', Write byte_array,
               Print (''error: '' @ ''unable to send the report to the VOPR Hub. Error: {}''
                      @ [CHR 0x0A])], Exit 1)
      else
        (case tcp_read env of
           None \<Rightarrow>
             (ev @ [Connect addr, Print ''Connected to VOPR Hub.'', Write byte_array, Read,
                    Print (''error: '' @ ''unable to read a reply from the VOPR Hub. Error: {}''
                           @ [CHR 0x0A])], Exit 1)
         | Some reply \<Rightarrow>
             if length reply > 0 then
               (ev @ [Connect addr, Print ''Connected to VOPR Hub.'', Write byte_array, Read,
                      Print ''Confirmation received from VOPR Hub: {s}.''], Return ())
             else
               (ev @ [Connect addr, Print ''Connected to VOPR Hub.'', Write byte_array, Read,
                      Print ''No reply received from VOPR Hub.''], Return ())))"
proof -
  have b: "bug message = 1 \<or> bug message = 2 \<or> bug message = 3"
    using assms bug_byte_range [of bg]
    by (auto simp add: create_report_cases split: option.splits if_splits)
  show ?thesis
    using b by (simp add: send_report_def assms and_then_def fatal_def Let_def
                  split: option.splits)
qed

lemma run_simulator_ReleaseSafe:
  assumes "child_process env (simulator_argv ''-OReleaseSafe'' sd) = Exited c"
  shows "run_simulator env sd ReleaseSafe addr =
    (if c = 0 then
       ([Spawn (simulator_argv ''-OReleaseSafe'' sd), Print (''exit with code: {}'' @ [CHR 0x0A])],
        Return None)
     else if c = 127 \<or> c = 128 \<or> c = 129 then
       (let bg = (if c = 127 then crash else if c = 128 then liveness else correctness) in
        case run_simulator env sd Debug addr of
          (tr, Return None) \<Rightarrow> (rerun_prefix sd @ tr, ZigPanic ''attempt to use null value'')
        | (tr, Return (Some bg')) \<Rightarrow>
            (rerun_prefix sd @ tr,
             if bg = bg' then Return (Some bg) else ZigPanic ''reached unreachable code'')
        | (tr, Exit n) \<Rightarrow> (rerun_prefix sd @ tr, Exit n)
        | (tr, ZigPanic msg) \<Rightarrow> (rerun_prefix sd @ tr, ZigPanic msg))
     else
       ([Spawn (simulator_argv ''-OReleaseSafe'' sd), Print (''exit with code: {}'' @ [CHR 0x0A]),
         Print ''unexpected simulator exit code: {}''],
        ZigPanic ''unexpected simulator exit code.''))"
  by (subst run_simulator.simps)
     (simp add: run_child_Exited [OF assms] and_then_def rerun_prefix_def Let_def
        split: prod.splits outcome.splits option.splits cong: option.case_cong)




lemma example_git_commit:
  "hexToBytes (take 40 (drop 7 ''commit 0a0b0c0d0e0f101112131415161718191a1b1c1d'')) =
     Some [0x0a, 0x0b, 0x0c, 0x0d, 0x0e, 0x0f, 0x10, 0x11, 0x12, 0x13,
           0x14, 0x15, 0x16, 0x17, 0x18, 0x19, 0x1a, 0x1b, 0x1c, 0x1d]"
  by (simp add: charToDigit_def)

lemma example_create_report:
  "create_report example_env bg sd =
     ([Print (''Collecting VOPR bug and seed, and the current git commit hash.'' @ [CHR 0x0A]),
       Exec [''git'', ''log'', ''-1''],
       Print (''git commit that was retrieved: {s}'' @ [CHR 0x0A])],
      Return \<lparr>bug = bug_byte bg, seed = sd,
              commit = [0x0a, 0x0b, 0x0c, 0x0d, 0x0e, 0x0f, 0x10, 0x11, 0x12, 0x13,
                        0x14, 0x15, 0x16, 0x17, 0x18, 0x19, 0x1a, 0x1b, 0x1c, 0x1d]\<rparr>)"
  using example_git_commit
  by (simp add: create_report_cases example_env_def)

lemma example_env_net:
  "tcp_connect example_env a" "tcp_write example_env bs" "tcp_read example_env = Some [0x31]"
  by (simp_all add: example_env_def)

lemma example_seed_bytes:
  "bitCast_u64 (byteSwap 0x0123456789ABCDEF) = [0x01, 0x23, 0x45, 0x67, 0x89, 0xAB, 0xCD, 0xEF]"
  by (simp add: bitCast_u64_def byteSwap_def upt_rec)

lemma example_children:
  "child_process example_env (simulator_argv ''-OReleaseSafe'' 7) = Exited 129"
  "child_process example_env (simulator_argv ''-ODebug'' 7) = Exited 129"
  by (simp_all add: example_env_def simulator_argv_def)

lemma exit_code_result_bug:
  "exit_code_result c = Return (Some b) \<longleftrightarrow>
     (c = 127 \<and> b = crash) \<or> (c = 128 \<and> b = liveness) \<or> (c = 129 \<and> b = correctness)"
  by (auto simp add: exit_code_result_def)

lemma and_then_send:
  "and_then (send_report env a b sd) (\<lambda>_. ([], r)) =
     (fst (send_report env a b sd), then_outcome (snd (send_report env a b sd)) r)"
  by (cases "send_report env a b sd"; cases "snd (send_report env a b sd)")
     (auto simp add: and_then_def)

lemma and_then_Return: "and_then (ev, Return x) f = (ev @ fst (f x), snd (f x))"
  by (simp add: and_then_def split: prod.splits)

lemma and_then_ZigPanic: "and_then (ev, ZigPanic msg) f = (ev, ZigPanic msg)"
  by (simp add: and_then_def)

lemma debug_exited:
  assumes "child_process env (simulator_argv ''-ODebug'' sd) = Exited c"
  shows "run_simulator env sd Debug addr =
     (case exit_code_result c of
        Return None \<Rightarrow> (debug_run sd, Return None)
      | Return (Some b) \<Rightarrow>
          (case addr of
             None \<Rightarrow> (debug_run sd, Return (Some b))
           | Some a \<Rightarrow> (debug_run sd @ fst (send_report env a b sd),
                        then_outcome (snd (send_report env a b sd)) (Return (Some b))))
      | Exit n \<Rightarrow> (debug_run sd, Exit n)
      | ZigPanic msg \<Rightarrow>
          (debug_run sd @ [Print ''unexpected simulator exit code: {}''], ZigPanic msg))"
proof (cases addr)
  case None
  then show ?thesis
    by (simp add: run_simulator_Debug run_child_Exited [OF assms] exit_code_result_def
          debug_run_def and_then_def)
next
  case (Some a)
  have s: "and_then (send_report env a b sd) (\<lambda>_. ([], Return (Some b))) =
             (fst (send_report env a b sd),
              then_outcome (snd (send_report env a b sd)) (Return (Some b)))" for b
    by (rule and_then_send)
  show ?thesis
    unfolding Some
    by (simp add: run_simulator_Debug run_child_Exited [OF assms] exit_code_result_def
          debug_run_def s and_then_Return and_then_ZigPanic)
qed

lemma release_safe_exited:
  assumes "child_process env (simulator_argv ''-OReleaseSafe'' sd) = Exited c"
    and "exit_code_result c = Return (Some b)"
    and "child_process env (simulator_argv ''-ODebug'' sd) = Exited c'"
  shows "run_simulator env sd ReleaseSafe addr =
     (case exit_code_result c' of
        Return None \<Rightarrow> (rerun_prefix sd @ debug_run sd, ZigPanic ''attempt to use null value'')
      | Return (Some b') \<Rightarrow>
          (case addr of
             None \<Rightarrow> (rerun_prefix sd @ debug_run sd, same_bug b b')
           | Some a \<Rightarrow> (rerun_prefix sd @ debug_run sd @ fst (send_report env a b' sd),
                        then_outcome (snd (send_report env a b' sd)) (same_bug b b')))
      | Exit n \<Rightarrow> (rerun_prefix sd @ debug_run sd, Exit n)
      | ZigPanic msg \<Rightarrow>
          (rerun_prefix sd @ debug_run sd @ [Print ''unexpected simulator exit code: {}''],
           ZigPanic msg))"
proof -
  have c: "c \<noteq> 0" "c = 127 \<or> c = 128 \<or> c = 129"
       "b = (if c = 127 then crash else if c = 128 then liveness else correctness)"
    using assms(2) by (auto simp add: exit_code_result_bug)
  show ?thesis
  proof (cases "exit_code_result c'")
    case (Return r)
    show ?thesis
    proof (cases r)
      case None
      then show ?thesis using Return c
        by (simp add: run_simulator_ReleaseSafe [OF assms(1)] debug_exited [OF assms(3)] Let_def)
    next
      case (Some b')
      show ?thesis
      proof (cases addr)
        case None
        then show ?thesis using Return Some c
          by (simp add: run_simulator_ReleaseSafe [OF assms(1)] debug_exited [OF assms(3)]
                Let_def same_bug_def)
      next
        case (Some a)
        then show ?thesis using Return \<open>r = Some b'\<close> c
          by (cases "snd (send_report env a b' sd)")
             (simp_all add: run_simulator_ReleaseSafe [OF assms(1)] debug_exited [OF assms(3)]
                Let_def same_bug_def)
      qed
    qed
  next
    case (Exit n)
    then show ?thesis by (simp add: exit_code_result_def split: if_splits)
  next
    case (ZigPanic msg)
    then show ?thesis using c
      by (simp add: run_simulator_ReleaseSafe [OF assms(1)] debug_exited [OF assms(3)] Let_def)
  qed
qed

lemma debug_not_exited:
  assumes "\<forall>c. child_process env (simulator_argv ''-ODebug'' sd) \<noteq> Exited c"
  shows "snd (run_simulator env sd Debug addr) = Exit 1"
  using assms
  by (cases "child_process env (simulator_argv ''-ODebug'' sd)")
     (simp_all add: run_simulator_Debug run_child_process_def and_then_def fatal_def)

lemma release_safe_trace:
  assumes "child_process env (simulator_argv ''-OReleaseSafe'' sd) = Exited c"
    and "exit_code_result c = Return (Some b)"
  shows "run_simulator env sd ReleaseSafe addr =
           (rerun_prefix sd @ fst (run_simulator env sd Debug addr),
            case snd (run_simulator env sd Debug addr) of
              Return None \<Rightarrow> ZigPanic ''attempt to use null value''
            | Return (Some b') \<Rightarrow> same_bug b b'
            | Exit n \<Rightarrow> Exit n
            | ZigPanic msg \<Rightarrow> ZigPanic msg)"
proof -
  have c: "c \<noteq> 0" "c = 127 \<or> c = 128 \<or> c = 129"
       "b = (if c = 127 then crash else if c = 128 then liveness else correctness)"
    using assms(2) by (auto simp add: exit_code_result_bug)
  show ?thesis
    using c
    by (cases "run_simulator env sd Debug addr")
       (auto simp add: run_simulator_ReleaseSafe [OF assms(1)] Let_def same_bug_def
          split: outcome.splits option.splits)
qed


lemma example_send:
  "snd (send_report example_env hub bg 7) = Return ()"
  by (simp add: send_report_after_create [OF example_create_report] example_env_net)



section \<open>The worker's claims\<close>

text \<open>
  Claim C1 does not hold of \<open>send_report\<close>: what it hands to \<open>writeAll\<close> is the 29-byte
  array of bug kind, big-endian seed and commit, with no checksum in front. For a
  correctness bug at seed \<open>0x0123456789ABCDEF\<close> on commit \<open>0a0b...1d\<close> the bytes written
  are the 29 below, where the README describes a message of 45 bytes.
\<close>

theorem send_report_writes_29_bytes:
  "fst (send_report example_env hub correctness 0x0123456789ABCDEF) =
     [Print (''Collecting VOPR bug and seed, and the current git commit hash.'' @ [CHR 0x0A]),
      Exec [''git'', ''log'', ''-1''],
      Print (''git commit that was retrieved: {s}'' @ [CHR 0x0A]),
      Connect hub, Print ''Connected to VOPR Hub.'',
      Write [0x01,
             0x01, 0x23, 0x45, 0x67, 0x89, 0xAB, 0xCD, 0xEF,
             0x0a, 0x0b, 0x0c, 0x0d, 0x0e, 0x0f, 0x10, 0x11, 0x12, 0x13,
             0x14, 0x15, 0x16, 0x17, 0x18, 0x19, 0x1a, 0x1b, 0x1c, 0x1d],
      Read, Print ''Confirmation received from VOPR Hub: {s}.'']
   \<and> length [0x01 :: u8,
             0x01, 0x23, 0x45, 0x67, 0x89, 0xAB, 0xCD, 0xEF,
             0x0a, 0x0b, 0x0c, 0x0d, 0x0e, 0x0f, 0x10, 0x11, 0x12, 0x13,
             0x14, 0x15, 0x16, 0x17, 0x18, 0x19, 0x1a, 0x1b, 0x1c, 0x1d] = 29"
  by (simp add: send_report_after_create [OF example_create_report] bug_byte_def
        example_env_net example_seed_bytes)

text \<open>
  Claim C2. Whenever the simulator child of a run exits with code \<open>c\<close>, in either mode
  the worker runs it in: code 0 returns no bug; a code other than 0, 127, 128 and 129
  panics with "unexpected simulator exit code."; and 127, 128, 129 are a crash, a
  liveness and a correctness bug. With such a bug a Debug run returns it, after the
  report was sent when a Hub address is set (a failing send ends the process
  first); a ReleaseSafe run goes by the code \<open>c'\<close> of the Debug child of the same seed,
  which is mapped the same way: 0 panics (no bug to compare with), a code of a bug has
  the report sent from the Debug run and then returns the bug when \<open>c' = c\<close> and panics
  when not, and any other code panics as unexpected; a Debug child that ends without
  an exit code ends the process with exit code 1. A run that returns always returns
  what the mapping gives for \<open>c\<close>.
\<close>

theorem exit_code_mapping:
  assumes "mode_str mode = Some ms"
    and "child_process env (simulator_argv ms sd) = Exited c"
  shows "(c = 0 \<longrightarrow> snd (run_simulator env sd mode addr) = Return None)
       \<and> (c \<noteq> 0 \<and> c \<noteq> 127 \<and> c \<noteq> 128 \<and> c \<noteq> 129 \<longrightarrow>
            snd (run_simulator env sd mode addr) = ZigPanic ''unexpected simulator exit code.'')
       \<and> (\<forall>b. (c = 127 \<and> b = crash) \<or> (c = 128 \<and> b = liveness)
               \<or> (c = 129 \<and> b = correctness) \<longrightarrow>
            (mode = Debug \<longrightarrow>
               snd (run_simulator env sd mode addr) =
                 (case addr of
                    None \<Rightarrow> Return (Some b)
                  | Some a \<Rightarrow> then_outcome (snd (send_report env a b sd)) (Return (Some b))))
          \<and> (mode = ReleaseSafe \<longrightarrow>
               (\<forall>c'. child_process env (simulator_argv ''-ODebug'' sd) = Exited c' \<longrightarrow>
                  snd (run_simulator env sd mode addr) =
                    (if c' = 0 then ZigPanic ''attempt to use null value''
                     else if c' = 127 \<or> c' = 128 \<or> c' = 129 then
                       then_outcome
                         (case addr of
                            None \<Rightarrow> Return ()
                          | Some a \<Rightarrow>
                              snd (send_report env a
                                     (if c' = 127 then crash
                                      else if c' = 128 then liveness else correctness) sd))
                         (if c' = c then Return (Some b)
                          else ZigPanic ''reached unreachable code'')
                     else ZigPanic ''unexpected simulator exit code.'')))
          \<and> (mode = ReleaseSafe
               \<and> (\<forall>c'. child_process env (simulator_argv ''-ODebug'' sd) \<noteq> Exited c') \<longrightarrow>
               snd (run_simulator env sd mode addr) = Exit 1))
       \<and> (\<forall>r. snd (run_simulator env sd mode addr) = Return r \<longrightarrow>
            r = (if c = 0 then None else if c = 127 then Some crash
                 else if c = 128 then Some liveness else Some correctness)
            \<and> (c = 0 \<or> c = 127 \<or> c = 128 \<or> c = 129))"
proof (cases mode)
  case Debug
  then have ch: "child_process env (simulator_argv ''-ODebug'' sd) = Exited c"
    using assms by simp
  have t: "then_outcome u (Return x) = Return r \<Longrightarrow> r = x" for u and x r :: "Bug option"
    by (cases u) simp_all
  show ?thesis
    unfolding Debug
    by (cases addr)
       (auto simp add: debug_exited [OF ch] exit_code_result_def dest: t
          split: outcome.splits option.splits if_splits)
next
  case ReleaseSafe
  then have ch: "child_process env (simulator_argv ''-OReleaseSafe'' sd) = Exited c"
    using assms by simp
  have zero: "c = 0 \<longrightarrow> snd (run_simulator env sd ReleaseSafe addr) = Return None"
    by (simp add: run_simulator_ReleaseSafe [OF ch])
  have other: "c \<noteq> 0 \<and> c \<noteq> 127 \<and> c \<noteq> 128 \<and> c \<noteq> 129 \<longrightarrow>
            snd (run_simulator env sd ReleaseSafe addr)
              = ZigPanic ''unexpected simulator exit code.''"
    by (simp add: run_simulator_ReleaseSafe [OF ch])
  have bugs: "\<forall>b. (c = 127 \<and> b = crash) \<or> (c = 128 \<and> b = liveness)
               \<or> (c = 129 \<and> b = correctness) \<longrightarrow>
               (\<forall>c'. child_process env (simulator_argv ''-ODebug'' sd) = Exited c' \<longrightarrow>
                  snd (run_simulator env sd ReleaseSafe addr) =
                    (if c' = 0 then ZigPanic ''attempt to use null value''
                     else if c' = 127 \<or> c' = 128 \<or> c' = 129 then
                       then_outcome
                         (case addr of
                            None \<Rightarrow> Return ()
                          | Some a \<Rightarrow>
                              snd (send_report env a
                                     (if c' = 127 then crash
                                      else if c' = 128 then liveness else correctness) sd))
                         (if c' = c then Return (Some b)
                          else ZigPanic ''reached unreachable code'')
                     else ZigPanic ''unexpected simulator exit code.''))"
  proof (intro allI impI)
    fix b c'
    assume b: "(c = 127 \<and> b = crash) \<or> (c = 128 \<and> b = liveness)
               \<or> (c = 129 \<and> b = correctness)"
      and d: "child_process env (simulator_argv ''-ODebug'' sd) = Exited c'"
    have m: "exit_code_result c = Return (Some b)"
      using b by (simp add: exit_code_result_bug)
    show "snd (run_simulator env sd ReleaseSafe addr) =
                    (if c' = 0 then ZigPanic ''attempt to use null value''
                     else if c' = 127 \<or> c' = 128 \<or> c' = 129 then
                       then_outcome
                         (case addr of
                            None \<Rightarrow> Return ()
                          | Some a \<Rightarrow>
                              snd (send_report env a
                                     (if c' = 127 then crash
                                      else if c' = 128 then liveness else correctness) sd))
                         (if c' = c then Return (Some b)
                          else ZigPanic ''reached unreachable code'')
                     else ZigPanic ''unexpected simulator exit code.'')"
      using b
      by (cases addr)
         (auto simp add: release_safe_exited [OF ch m d] exit_code_result_def same_bug_def)
  qed
  have gone: "\<forall>b. (c = 127 \<and> b = crash) \<or> (c = 128 \<and> b = liveness)
               \<or> (c = 129 \<and> b = correctness) \<longrightarrow>
               (\<forall>c'. child_process env (simulator_argv ''-ODebug'' sd) \<noteq> Exited c') \<longrightarrow>
               snd (run_simulator env sd ReleaseSafe addr) = Exit 1"
  proof (intro allI impI)
    fix b
    assume b: "(c = 127 \<and> b = crash) \<or> (c = 128 \<and> b = liveness)
               \<or> (c = 129 \<and> b = correctness)"
      and d: "\<forall>c'. child_process env (simulator_argv ''-ODebug'' sd) \<noteq> Exited c'"
    have m: "exit_code_result c = Return (Some b)"
      using b by (simp add: exit_code_result_bug)
    show "snd (run_simulator env sd ReleaseSafe addr) = Exit 1"
      by (simp add: release_safe_trace [OF ch m] debug_not_exited [OF d])
  qed
  have ret: "\<forall>r. snd (run_simulator env sd ReleaseSafe addr) = Return r \<longrightarrow>
            r = (if c = 0 then None else if c = 127 then Some crash
                 else if c = 128 then Some liveness else Some correctness)
            \<and> (c = 0 \<or> c = 127 \<or> c = 128 \<or> c = 129)"
    by (auto simp add: run_simulator_ReleaseSafe [OF ch] Let_def
          split: option.splits prod.splits outcome.splits if_splits)
  show ?thesis
    unfolding ReleaseSafe using zero other bugs gone ret by simp
next
  case ReleaseFast
  then show ?thesis using assms by simp
next
  case ReleaseSmall
  then show ?thesis using assms by simp
qed

theorem exit_code_mapping_witness:
  "mode_str Debug = Some ''-ODebug'' \<and> mode_str ReleaseSafe = Some ''-OReleaseSafe''
   \<and> child_process example_env (simulator_argv ''-ODebug'' 7) = Exited 129
   \<and> child_process example_env (simulator_argv ''-OReleaseSafe'' 7) = Exited 129
   \<and> snd (run_simulator example_env 7 Debug None) = Return (Some correctness)
   \<and> snd (run_simulator example_env 7 Debug (Some hub)) = Return (Some correctness)
   \<and> snd (run_simulator example_env 7 ReleaseSafe None) = Return (Some correctness)
   \<and> snd (run_simulator example_env 7 ReleaseSafe (Some hub)) = Return (Some correctness)"
proof -
  have md: "mode_str Debug = Some ''-ODebug''" by simp
  have mr: "mode_str ReleaseSafe = Some ''-OReleaseSafe''" by simp
  have b: "((129 :: u8) = 127 \<and> correctness = crash) \<or> ((129 :: u8) = 128 \<and> correctness = liveness)
           \<or> ((129 :: u8) = 129 \<and> correctness = correctness)"
    by simp
  note d = exit_code_mapping [OF md example_children(2), THEN conjunct2, THEN conjunct2,
             THEN conjunct1, rule_format, OF b, THEN conjunct1, rule_format, OF refl]
  note r = exit_code_mapping [OF mr example_children(1), THEN conjunct2, THEN conjunct2,
             THEN conjunct1, rule_format, OF b, THEN conjunct2, THEN conjunct1, rule_format,
             OF refl example_children(2)]
  have "snd (run_simulator example_env 7 Debug None) = Return (Some correctness)"
    using d [of None] by simp
  moreover have "snd (run_simulator example_env 7 Debug (Some hub)) = Return (Some correctness)"
    using d [of "Some hub"] by (simp add: example_send)
  moreover have "snd (run_simulator example_env 7 ReleaseSafe None) = Return (Some correctness)"
    using r [of None] by simp
  moreover have "snd (run_simulator example_env 7 ReleaseSafe (Some hub))
                   = Return (Some correctness)"
    using r [of "Some hub"] by (simp add: example_send)
  ultimately show ?thesis
    using md mr example_children by simp
qed

text \<open>
  Claim C3, as the code has it. Once the report is built, a failure to connect, to
  write or to read the reply is printed as an error and ends the process with exit
  code 1 (\<open>fatal\<close>); only a reply of no bytes is printed and lets \<open>send_report\<close>
  return. The exit is the outcome of the \<open>run_simulator\<close> call that sent the report.
\<close>

theorem send_failure_is_fatal:
  assumes "create_report env bg sd = (ev, Return message)"
  shows "(\<not> tcp_connect env addr \<longrightarrow>
            send_report env addr bg sd =
              (ev @ [Connect addr,
                     Print (''error: unable to create a connection to the VOPR Hub. Error: {}''
                            @ [CHR 0x0A])], Exit 1))
       \<and> (tcp_connect env addr
            \<and> \<not> tcp_write env ([bug message] @ bitCast_u64 (byteSwap (seed message))
                                  @ commit message) \<longrightarrow>
            send_report env addr bg sd =
              (ev @ [Connect addr, Print ''Connected to VOPR Hub.'',
                     Write ([bug message] @ bitCast_u64 (byteSwap (seed message))
                            @ commit message),
                     Print (''error: unable to send the report to the VOPR Hub. Error: {}''
                            @ [CHR 0x0A])], Exit 1))
       \<and> (tcp_connect env addr
            \<and> tcp_write env ([bug message] @ bitCast_u64 (byteSwap (seed message))
                                @ commit message)
            \<and> tcp_read env = None \<longrightarrow>
            send_report env addr bg sd =
              (ev @ [Connect addr, Print ''Connected to VOPR Hub.'',
                     Write ([bug message] @ bitCast_u64 (byteSwap (seed message))
                            @ commit message),
                     Read,
                     Print (''error: unable to read a reply from the VOPR Hub. Error: {}''
                            @ [CHR 0x0A])], Exit 1))
       \<and> (tcp_connect env addr
            \<and> tcp_write env ([bug message] @ bitCast_u64 (byteSwap (seed message))
                                @ commit message)
            \<and> tcp_read env = Some [] \<longrightarrow>
            send_report env addr bg sd =
              (ev @ [Connect addr, Print ''Connected to VOPR Hub.'',
                     Write ([bug message] @ bitCast_u64 (byteSwap (seed message))
                            @ commit message),
                     Read, Print ''No reply received from VOPR Hub.''], Return ()))
       \<and> (\<forall>n c. snd (send_report env addr bg sd) = Exit n
              \<and> child_process env (simulator_argv ''-ODebug'' sd) = Exited c
              \<and> (if c = 127 then bg = crash else if c = 128 then bg = liveness
                  else c = 129 \<and> bg = correctness) \<longrightarrow>
            snd (run_simulator env sd Debug (Some addr)) = Exit n)"
proof -
  have last: "\<forall>n c. snd (send_report env addr bg sd) = Exit n
              \<and> child_process env (simulator_argv ''-ODebug'' sd) = Exited c
              \<and> (if c = 127 then bg = crash else if c = 128 then bg = liveness
                  else c = 129 \<and> bg = correctness) \<longrightarrow>
            snd (run_simulator env sd Debug (Some addr)) = Exit n"
  proof (intro allI impI, elim conjE)
    fix n c
    assume s: "snd (send_report env addr bg sd) = Exit n"
      and ch: "child_process env (simulator_argv ''-ODebug'' sd) = Exited c"
      and b: "if c = 127 then bg = crash else if c = 128 then bg = liveness
              else c = 129 \<and> bg = correctness"
    obtain tr where "send_report env addr bg sd = (tr, Exit n)"
      using s by (cases "send_report env addr bg sd") simp
    then show "snd (run_simulator env sd Debug (Some addr)) = Exit n"
      using b
      by (auto simp add: run_simulator_Debug run_child_Exited [OF ch] and_then_def
            split: if_splits)
  qed
  show ?thesis
    using last
    by (simp add: send_report_after_create [OF assms] Let_def)
qed

theorem send_failure_is_fatal_witness:
  "create_report unreachable_hub_env correctness 7 =
     ([Print (''Collecting VOPR bug and seed, and the current git commit hash.'' @ [CHR 0x0A]),
       Exec [''git'', ''log'', ''-1''],
       Print (''git commit that was retrieved: {s}'' @ [CHR 0x0A])],
      Return \<lparr>bug = 1, seed = 7,
              commit = [0x0a, 0x0b, 0x0c, 0x0d, 0x0e, 0x0f, 0x10, 0x11, 0x12, 0x13,
                        0x14, 0x15, 0x16, 0x17, 0x18, 0x19, 0x1a, 0x1b, 0x1c, 0x1d]\<rparr>)
   \<and> \<not> tcp_connect unreachable_hub_env hub
   \<and> send_report unreachable_hub_env hub correctness 7 =
       ([Print (''Collecting VOPR bug and seed, and the current git commit hash.'' @ [CHR 0x0A]),
         Exec [''git'', ''log'', ''-1''],
         Print (''git commit that was retrieved: {s}'' @ [CHR 0x0A]),
         Connect hub,
         Print (''error: unable to create a connection to the VOPR Hub. Error: {}''
                @ [CHR 0x0A])], Exit 1)"
proof -
  have cr: "create_report unreachable_hub_env correctness 7 =
     ([Print (''Collecting VOPR bug and seed, and the current git commit hash.'' @ [CHR 0x0A]),
       Exec [''git'', ''log'', ''-1''],
       Print (''git commit that was retrieved: {s}'' @ [CHR 0x0A])],
      Return \<lparr>bug = 1, seed = 7,
              commit = [0x0a, 0x0b, 0x0c, 0x0d, 0x0e, 0x0f, 0x10, 0x11, 0x12, 0x13,
                        0x14, 0x15, 0x16, 0x17, 0x18, 0x19, 0x1a, 0x1b, 0x1c, 0x1d]\<rparr>)"
    using example_git_commit
    by (simp add: create_report_cases unreachable_hub_env_def example_env_def bug_byte_def)
  have nc: "\<not> tcp_connect unreachable_hub_env hub"
    by (simp add: unreachable_hub_env_def)
  show ?thesis
    using send_failure_is_fatal [OF cr, of hub] cr nc by simp
qed

text \<open>
  Claim C3 as stated fails: with a Hub that cannot be reached, sending the report of
  seed 7 ends the worker with exit code 1; it does not go on.
\<close>

theorem send_failure_ends_worker:
  "snd (send_report unreachable_hub_env hub correctness 7) = Exit 1
   \<and> snd (run_simulator unreachable_hub_env 7 ReleaseSafe (Some hub)) = Exit 1"
proof -
  have cr: "create_report unreachable_hub_env correctness 7 =
     ([Print (''Collecting VOPR bug and seed, and the current git commit hash.'' @ [CHR 0x0A]),
       Exec [''git'', ''log'', ''-1''],
       Print (''git commit that was retrieved: {s}'' @ [CHR 0x0A])],
      Return \<lparr>bug = 1, seed = 7,
              commit = [0x0a, 0x0b, 0x0c, 0x0d, 0x0e, 0x0f, 0x10, 0x11, 0x12, 0x13,
                        0x14, 0x15, 0x16, 0x17, 0x18, 0x19, 0x1a, 0x1b, 0x1c, 0x1d]\<rparr>)"
    using example_git_commit
    by (simp add: create_report_cases unreachable_hub_env_def example_env_def bug_byte_def)
  have nc: "\<not> tcp_connect unreachable_hub_env hub"
    by (simp add: unreachable_hub_env_def)
  have s: "snd (send_report unreachable_hub_env hub correctness 7) = Exit 1"
    using nc by (simp add: send_report_after_create [OF cr])
  have ch: "child_process unreachable_hub_env (simulator_argv ''-OReleaseSafe'' 7) = Exited 129"
           "child_process unreachable_hub_env (simulator_argv ''-ODebug'' 7) = Exited 129"
    by (simp_all add: unreachable_hub_env_def example_env_def simulator_argv_def)
  obtain tr where sr: "send_report unreachable_hub_env hub correctness 7 = (tr, Exit 1)"
    using s by (cases "send_report unreachable_hub_env hub correctness 7") simp
  have d: "snd (run_simulator unreachable_hub_env 7 Debug (Some hub)) = Exit 1"
    by (simp add: run_simulator_Debug run_child_Exited [OF ch(2)] and_then_def sr)
  obtain tr' where "run_simulator unreachable_hub_env 7 Debug (Some hub) = (tr', Exit 1)"
    using d by (cases "run_simulator unreachable_hub_env 7 Debug (Some hub)") simp
  then have "snd (run_simulator unreachable_hub_env 7 ReleaseSafe (Some hub)) = Exit 1"
    by (simp add: run_simulator_ReleaseSafe [OF ch(1)])
  then show ?thesis using s by simp
qed



section \<open>The scheduler's claims\<close>

text \<open>
  Claim C6 does not hold of \<open>checkout_branch\<close> with the output git gives. The order is
  as claimed: \<open>git fetch --all\<close>, then \<open>git checkout\<close> of the branch on the state the
  fetch left, then \<open>git branch --show-current\<close> on the state the checkout left; a step
  that fails is logged and ends the call before the next one runs. \<open>nil\<close> is returned
  exactly when all three succeed and the output of the last one is the name asked for,
  byte for byte. git ends the line it prints with a newline, and prints nothing on a
  detached HEAD (where a checkout of a commit id leaves the working copy), and the
  output is compared untrimmed. So when git prints the very branch asked for the call
  returns "Checkout failed", and for a name that is not empty and does not end in a
  newline it never returns \<open>nil\<close>.
\<close>

theorem checkout_branch_compares_raw_output:
  assumes "exec dir [''git'', ''fetch'', ''--all''] s = (fetched, s1)"
    and "exec dir [''git'', ''checkout'', branch] s1 = (checked_out, s2)"
    and "exec dir [''git'', ''branch'', ''--show-current''] s2 = (shown, s3)"
  shows "(fst (snd (checkout_branch exec branch dir s)) = None) =
           (cmd_err fetched = None \<and> cmd_err checked_out = None \<and> cmd_err shown = None
            \<and> cmd_stdout shown = branch)
       \<and> (fst (snd (checkout_branch exec branch dir s)) = None \<longrightarrow>
            checkout_branch exec branch dir s = ([], None, s3))
       \<and> (\<forall>err. cmd_err fetched = Some err \<longrightarrow>
            checkout_branch exec branch dir s =
              (log_error (''Failed to run git fetch: '' @ err), Some err, s1))
       \<and> (\<forall>err. cmd_err fetched = None \<and> cmd_err checked_out = Some err \<longrightarrow>
            checkout_branch exec branch dir s =
              (log_error (''Failed to run git checkout: '' @ err), Some err, s2))
       \<and> (\<forall>err. cmd_err fetched = None \<and> cmd_err checked_out = None
              \<and> cmd_err shown = Some err \<longrightarrow>
            checkout_branch exec branch dir s =
              (log_error (''Failed to run git log: '' @ err), Some err, s3))
       \<and> (cmd_err fetched = None \<and> cmd_err checked_out = None \<and> cmd_err shown = None
            \<and> cmd_stdout shown \<noteq> branch \<longrightarrow>
            checkout_branch exec branch dir s = ([], Some ''Checkout failed'', s3))
       \<and> (cmd_err fetched = None \<and> cmd_err checked_out = None \<and> cmd_err shown = None
            \<and> cmd_stdout shown = branch @ [CHR 0x0A] \<longrightarrow>
            checkout_branch exec branch dir s = ([], Some ''Checkout failed'', s3))
       \<and> (branch \<noteq> [] \<and> last branch \<noteq> CHR 0x0A
            \<and> (cmd_stdout shown = [] \<or> last (cmd_stdout shown) = CHR 0x0A) \<longrightarrow>
            fst (snd (checkout_branch exec branch dir s)) \<noteq> None)"
proof -
  have main: "checkout_branch exec branch dir s =
     (case cmd_err fetched of
        Some err \<Rightarrow> (log_error (''Failed to run git fetch: '' @ err), Some err, s1)
      | None \<Rightarrow>
        (case cmd_err checked_out of
           Some err \<Rightarrow> (log_error (''Failed to run git checkout: '' @ err), Some err, s2)
         | None \<Rightarrow>
           (case cmd_err shown of
              Some err \<Rightarrow> (log_error (''Failed to run git log: '' @ err), Some err, s3)
            | None \<Rightarrow>
                if cmd_stdout shown \<noteq> branch then ([], Some ''Checkout failed'', s3)
                else ([], None, s3))))"
    by (simp add: checkout_branch_def assms Let_def split: option.splits)
  have a: "(fst (snd (checkout_branch exec branch dir s)) = None) =
           (cmd_err fetched = None \<and> cmd_err checked_out = None \<and> cmd_err shown = None
            \<and> cmd_stdout shown = branch)"
    by (auto simp add: main split: option.splits)
  have b: "fst (snd (checkout_branch exec branch dir s)) = None \<longrightarrow>
            checkout_branch exec branch dir s = ([], None, s3)"
    by (auto simp add: main split: option.splits)
  have n: "branch \<noteq> [] \<and> last branch \<noteq> CHR 0x0A
            \<and> (cmd_stdout shown = [] \<or> last (cmd_stdout shown) = CHR 0x0A) \<longrightarrow>
            fst (snd (checkout_branch exec branch dir s)) \<noteq> None"
    unfolding a by auto
  show ?thesis
    using a b n by (simp add: main)
qed

lemma toy_git_steps:
  "toy_git d [''git'', ''fetch'', ''--all''] ''main'' = (\<lparr>cmd_stdout = [], cmd_err = None\<rparr>, ''main'')"
  "toy_git d [''git'', ''checkout'', ''a''] ''main'' = (\<lparr>cmd_stdout = [], cmd_err = None\<rparr>, ''a'')"
  "toy_git d [''git'', ''branch'', ''--show-current''] ''a''
     = (\<lparr>cmd_stdout = ''a'' @ [CHR 0x0A], cmd_err = None\<rparr>, ''a'')"
  by (simp_all add: toy_git_def)

text \<open>
  The checkout of branch \<open>a\<close> from \<open>main\<close>: the three commands succeed, the working
  copy is on \<open>a\<close>, and the call returns "Checkout failed".
\<close>

theorem checkout_branch_compares_raw_output_witness:
  "toy_git ''/home/voprrunner/tigerbeetle2'' [''git'', ''fetch'', ''--all''] ''main''
     = (\<lparr>cmd_stdout = [], cmd_err = None\<rparr>, ''main'')
   \<and> toy_git ''/home/voprrunner/tigerbeetle2'' [''git'', ''checkout'', ''a''] ''main''
     = (\<lparr>cmd_stdout = [], cmd_err = None\<rparr>, ''a'')
   \<and> toy_git ''/home/voprrunner/tigerbeetle2'' [''git'', ''branch'', ''--show-current''] ''a''
     = (\<lparr>cmd_stdout = ''a'' @ [CHR 0x0A], cmd_err = None\<rparr>, ''a'')
   \<and> checkout_branch toy_git ''a'' ''/home/voprrunner/tigerbeetle2'' ''main''
     = ([], Some ''Checkout failed'', ''a'')"
proof -
  let ?d = "''/home/voprrunner/tigerbeetle2''"
  note t = checkout_branch_compares_raw_output
         [where exec = toy_git and dir = ?d and branch = "''a''" and s = "''main''",
          OF toy_git_steps(1) [of ?d] toy_git_steps(2) [of ?d] toy_git_steps(3) [of ?d]]
  have "cmd_err \<lparr>cmd_stdout = [], cmd_err = None\<rparr> = None
          \<and> cmd_err \<lparr>cmd_stdout = [], cmd_err = None\<rparr> = None
          \<and> cmd_err \<lparr>cmd_stdout = ''a'' @ [CHR 0x0A], cmd_err = None\<rparr> = None
          \<and> cmd_stdout \<lparr>cmd_stdout = ''a'' @ [CHR 0x0A], cmd_err = None\<rparr> = ''a'' @ [CHR 0x0A]"
    by simp
  with t [THEN conjunct2, THEN conjunct2, THEN conjunct2, THEN conjunct2, THEN conjunct2,
          THEN conjunct2, THEN conjunct1]
  have "checkout_branch toy_git ''a'' ?d ''main'' = ([], Some ''Checkout failed'', ''a'')"
    by (rule mp)
  then show ?thesis using toy_git_steps by simp
qed

subsection \<open>No index out of range\<close>

lemma set_environment_variables_halts:
  "snd (set_environment_variables env g) = Inl h \<Longrightarrow> h \<noteq> GoPanic IndexOutOfRange"
  by (auto simp add: set_environment_variables_def Let_def
        split: option.splits if_splits sum.splits)

lemma get_pull_requests_halts:
  "snd (get_pull_requests env g) \<noteq> Inl (GoPanic IndexOutOfRange)"
  using decode_response_panics [of "Get_issues env (repository_url g)"]
  by (simp add: get_pull_requests_def)

lemma get_pull_requests_part001_halts:
  "snd (get_pull_requests_part001 env g n p) \<noteq> Inl (GoPanic IndexOutOfRange)"
  using decode_response_panics
    [of "Get_issues env (repository_url g @ ''/pulls?per_page='' @ itoa n @ ''&page='' @ itoa p)"]
  by (auto simp add: get_pull_requests_part001_def split: prod.splits sum.splits)

lemma labels_halts:
  "snd (get_commit_hashes_labels env g e ls vc) \<noteq> Inl (GoPanic IndexOutOfRange)"
proof (induction ls)
  case Nil
  then show ?case by simp
next
  case (Cons l ls)
  show ?case
  proof (cases "Name l = ''vopr''")
    case True
    obtain before bn found where c: "Cut (Label (Head e)) '':'' = (before, bn, found)"
      by (cases "Cut (Label (Head e)) '':''") auto
    show ?thesis
      using True c get_commits_panics [of env g bn]
      by (auto split: prod.splits sum.splits)
  next
    case False
    then show ?thesis using Cons by simp
  qed
qed

lemma elements_halts:
  "snd (get_commit_hashes_elements env g es vc) \<noteq> Inl (GoPanic IndexOutOfRange)"
proof (induction es arbitrary: vc)
  case Nil
  then show ?case by simp
next
  case (Cons e es)
  obtain out1 res1 where l: "get_commit_hashes_labels env g e (Labels e) vc = (out1, res1)"
    by (cases "get_commit_hashes_labels env g e (Labels e) vc") auto
  show ?case
  proof (cases res1)
    case (Inl h)
    then show ?thesis using l labels_halts [of env g e "Labels e" vc] by auto
  next
    case (Inr vc')
    obtain out2 res2 where r: "get_commit_hashes_elements env g es vc' = (out2, res2)"
      by (cases "get_commit_hashes_elements env g es vc'") auto
    have "res2 \<noteq> Inl (GoPanic IndexOutOfRange)"
      using Cons [of vc'] r by simp
    then show ?thesis using l Inr r by auto
  qed
qed

lemma pages_halts_aux:
  assumes "get_commit_hashes_pages env0 g0 i0 vc0 out0 = Some r0"
  shows "\<forall>o' h. r0 = (o', Inl h) \<longrightarrow> h \<noteq> GoPanic IndexOutOfRange"
  proof (rule get_commit_hashes_pages.raw_induct
           [where P = "\<lambda>env g i vc out r.
                         \<forall>o' h. r = (o', Inl h) \<longrightarrow> h \<noteq> GoPanic IndexOutOfRange",
            OF _ assms], goal_cases)
    case (1 pages env g i vc out r)
    show ?case
    proof (cases "int (length vc) < go_int (num_voprs g - 1)")
      case False
      then show ?thesis using 1(2) by auto
    next
      case True
      obtain out1 res1 where p: "get_pull_requests_part001 env g 30 i = (out1, res1)"
        by (cases "get_pull_requests_part001 env g 30 i") auto
      show ?thesis
      proof (cases res1)
        case (Inl h1)
        then show ?thesis
          using 1(2) True p get_pull_requests_part001_halts [of env g 30 i] by auto
      next
        case (Inr prs)
        obtain out2 res2 where e: "get_commit_hashes_elements env g prs vc = (out2, res2)"
          by (cases "get_commit_hashes_elements env g prs vc") auto
        show ?thesis
        proof (cases res2)
          case (Inl h2)
          then show ?thesis
            using 1(2) True p Inr e elements_halts [of env g prs vc] by auto
        next
          case (Inr vc')
          show ?thesis
          proof (cases "int (length prs) < 30")
            case True
            then show ?thesis
              using 1(2) \<open>int (length vc) < go_int (num_voprs g - 1)\<close> p \<open>res1 = Inr prs\<close> e Inr by auto
          next
            case False
            then have "pages env g (go_int (i + 1)) vc' (out @ out1 @ out2) = Some r"
              using 1(2) \<open>int (length vc) < go_int (num_voprs g - 1)\<close> p \<open>res1 = Inr prs\<close> e Inr by simp
            then show ?thesis using 1(1) by blast
          qed
        qed
      qed
    qed
  qed

lemma pages_halts:
  assumes "get_commit_hashes_pages env g i vc out = Some (out', Inl h)"
  shows "h \<noteq> GoPanic IndexOutOfRange"
  using pages_halts_aux [OF assms] by blast

lemma get_vopr_assignments_returns:
  "\<exists>r. get_vopr_assignments g bs = Some (Inr r)"
  by (cases "bs = []") (simp_all add: assignments_empty assignments_closed)

lemma main_checkout_cases:
  "main_checkout exec g vopr_assignments s =
     (if 1 \<le> current_vopr g \<and> current_vopr g \<le> int (length vopr_assignments)
      then (fst (checkout_branch exec (vopr_assignments ! nat (current_vopr g - 1))
                   (tigerbeetle_directory g @ itoa (current_vopr g)) s),
            None,
            snd (snd (checkout_branch exec (vopr_assignments ! nat (current_vopr g - 1))
                   (tigerbeetle_directory g @ itoa (current_vopr g)) s)))
      else ([], None, s))"
  by (auto simp add: main_checkout_def go_index_def split: prod.splits)

lemma main_halts:
  assumes "main exec env debug s = Some (out, Some h, s')"
  shows "h \<noteq> GoPanic IndexOutOfRange"
proof (cases "set_environment_variables env (initial_globals debug)")
  case (Pair out0 r0)
  show ?thesis
  proof (cases r0)
    case (Inl h0)
    then show ?thesis
      using assms Pair set_environment_variables_halts [of env "initial_globals debug" h0]
      by (simp add: main_def)
  next
    case (Inr g)
    obtain out1 r1 where p: "get_pull_requests env g = (out1, r1)"
      by (cases "get_pull_requests env g") auto
    show ?thesis
    proof (cases r1)
      case (Inl h1)
      then show ?thesis
        using assms Pair Inr p get_pull_requests_halts [of env g]
        by (auto simp add: main_def)
    next
      case prs: (Inr prs)
      obtain asg where a: "get_vopr_assignments g (get_branch_names g prs) = Some (Inr asg)"
        using get_vopr_assignments_returns by blast
      show ?thesis
        using assms Pair Inr p prs a
        by (simp add: main_def main_checkout_cases split: if_splits)
    qed
  qed
qed

lemma main_part001_halts:
  assumes "main_part001 exec env debug s = Some (out, Some h, s')"
  shows "h \<noteq> GoPanic IndexOutOfRange"
proof (cases "set_environment_variables env (initial_globals debug)")
  case (Pair out0 r0)
  show ?thesis
  proof (cases r0)
    case (Inl h0)
    then show ?thesis
      using assms Pair set_environment_variables_halts [of env "initial_globals debug" h0]
      by (simp add: main_part001_def)
  next
    case (Inr g)
    show ?thesis
    proof (cases "get_commit_hashes env g")
      case None
      then show ?thesis using assms Pair Inr by (simp add: main_part001_def)
    next
      case (Some p1)
      obtain out1 r1 where p1: "p1 = (out1, r1)" by (cases p1) auto
      show ?thesis
      proof (cases r1)
        case (Inl h1)
        then have "h1 \<noteq> GoPanic IndexOutOfRange"
          using Some p1 pages_halts [of env g 1 "[]" "[]" out1 h1]
          by (simp add: get_commit_hashes_def)
        then show ?thesis
          using assms Pair Inr Some p1 Inl by (simp add: main_part001_def)
      next
        case cs: (Inr cs)
        obtain out2 r2 where a: "get_vopr_assignments_part001 env g cs = Some (out2, r2)"
          and r2: "r2 \<noteq> Inl (GoPanic IndexOutOfRange)"
          using assignments_part001_total [of env g cs] by blast
        show ?thesis
        proof (cases r2)
          case (Inl h2)
          then show ?thesis
            using assms Pair Inr Some p1 cs a r2 by (auto simp add: main_part001_def)
        next
          case asg: (Inr asg)
          then show ?thesis
            using assms Pair Inr Some p1 cs a
            by (simp add: main_part001_def main_checkout_cases split: if_splits)
        qed
      qed
    qed
  qed
qed

text \<open>
  Claim C10. The last statement of \<open>main\<close> never panics: the index \<open>current_vopr - 1\<close>
  is read only when \<open>1 \<le> current_vopr \<le> len(vopr_assignments)\<close>, where it is in
  bounds, and the checkout is that of the assignment at this index in the directory
  \<open>tigerbeetle_directory\<close> followed by \<open>current_vopr\<close>. Outside the range nothing is run
  and the working copies are as they were. No run of \<open>main\<close>, in either revision, ends in
  an index-out-of-range panic, and a run that reaches the guard with \<open>current_vopr\<close>
  outside the range returns with the working copies untouched.
\<close>

theorem main_checkout_in_bounds:
  "fst (snd (main_checkout exec g vopr_assignments s)) = None
   \<and> (\<not> (1 \<le> current_vopr g \<and> current_vopr g \<le> int (length vopr_assignments)) \<longrightarrow>
        main_checkout exec g vopr_assignments s = ([], None, s))
   \<and> (1 \<le> current_vopr g \<and> current_vopr g \<le> int (length vopr_assignments) \<longrightarrow>
        go_index vopr_assignments (current_vopr g - 1)
          = Inr (vopr_assignments ! nat (current_vopr g - 1))
        \<and> nat (current_vopr g - 1) < length vopr_assignments
        \<and> fst (main_checkout exec g vopr_assignments s)
            = fst (checkout_branch exec (vopr_assignments ! nat (current_vopr g - 1))
                     (tigerbeetle_directory g @ itoa (current_vopr g)) s)
        \<and> snd (snd (main_checkout exec g vopr_assignments s))
            = snd (snd (checkout_branch exec (vopr_assignments ! nat (current_vopr g - 1))
                          (tigerbeetle_directory g @ itoa (current_vopr g)) s)))
   \<and> (\<forall>out h s'. main exec env debug s = Some (out, Some h, s') \<longrightarrow>
          h \<noteq> GoPanic IndexOutOfRange)
   \<and> (\<forall>out h s'. main_part001 exec env debug s = Some (out, Some h, s') \<longrightarrow>
          h \<noteq> GoPanic IndexOutOfRange)
   \<and> (\<forall>out0 g' out1 prs asg.
          set_environment_variables env (initial_globals debug) = (out0, Inr g')
          \<and> get_pull_requests env g' = (out1, Inr prs)
          \<and> get_vopr_assignments g' (get_branch_names g' prs) = Some (Inr asg)
          \<and> \<not> (1 \<le> current_vopr g' \<and> current_vopr g' \<le> int (length asg)) \<longrightarrow>
          main exec env debug s = Some (out0 @ out1 @ [Println asg], None, s))
   \<and> (\<forall>out0 g' out1 cs out2 asg.
          set_environment_variables env (initial_globals debug) = (out0, Inr g')
          \<and> get_commit_hashes env g' = Some (out1, Inr cs)
          \<and> get_vopr_assignments_part001 env g' cs = Some (out2, Inr asg)
          \<and> \<not> (1 \<le> current_vopr g' \<and> current_vopr g' \<le> int (length asg)) \<longrightarrow>
          main_part001 exec env debug s = Some (out0 @ out1 @ out2 @ [Println asg], None, s))"
proof -
  have a: "fst (snd (main_checkout exec g vopr_assignments s)) = None"
    by (simp add: main_checkout_cases)
  have b: "\<not> (1 \<le> current_vopr g \<and> current_vopr g \<le> int (length vopr_assignments)) \<longrightarrow>
        main_checkout exec g vopr_assignments s = ([], None, s)"
    by (simp add: main_checkout_cases)
  have c: "1 \<le> current_vopr g \<and> current_vopr g \<le> int (length vopr_assignments) \<longrightarrow>
        go_index vopr_assignments (current_vopr g - 1)
          = Inr (vopr_assignments ! nat (current_vopr g - 1))
        \<and> nat (current_vopr g - 1) < length vopr_assignments
        \<and> fst (main_checkout exec g vopr_assignments s)
            = fst (checkout_branch exec (vopr_assignments ! nat (current_vopr g - 1))
                     (tigerbeetle_directory g @ itoa (current_vopr g)) s)
        \<and> snd (snd (main_checkout exec g vopr_assignments s))
            = snd (snd (checkout_branch exec (vopr_assignments ! nat (current_vopr g - 1))
                          (tigerbeetle_directory g @ itoa (current_vopr g)) s))"
    by (auto simp add: main_checkout_cases go_index_def)
  have d: "\<forall>out h s'. main exec env debug s = Some (out, Some h, s') \<longrightarrow>
          h \<noteq> GoPanic IndexOutOfRange"
    by (intro allI impI) (rule main_halts)
  have e: "\<forall>out h s'. main_part001 exec env debug s = Some (out, Some h, s') \<longrightarrow>
          h \<noteq> GoPanic IndexOutOfRange"
    by (intro allI impI) (rule main_part001_halts)
  have f: "\<forall>out0 g' out1 prs asg.
          set_environment_variables env (initial_globals debug) = (out0, Inr g')
          \<and> get_pull_requests env g' = (out1, Inr prs)
          \<and> get_vopr_assignments g' (get_branch_names g' prs) = Some (Inr asg)
          \<and> \<not> (1 \<le> current_vopr g' \<and> current_vopr g' \<le> int (length asg)) \<longrightarrow>
          main exec env debug s = Some (out0 @ out1 @ [Println asg], None, s)"
  proof (intro allI impI, elim conjE)
    fix out0 g' out1 prs asg
    assume "set_environment_variables env (initial_globals debug) = (out0, Inr g')"
      and "get_pull_requests env g' = (out1, Inr prs)"
      and "get_vopr_assignments g' (get_branch_names g' prs) = Some (Inr asg)"
      and "\<not> (1 \<le> current_vopr g' \<and> current_vopr g' \<le> int (length asg))"
    then show "main exec env debug s = Some (out0 @ out1 @ [Println asg], None, s)"
      by (auto simp add: main_def main_checkout_cases)
  qed
  have h: "\<forall>out0 g' out1 cs out2 asg.
          set_environment_variables env (initial_globals debug) = (out0, Inr g')
          \<and> get_commit_hashes env g' = Some (out1, Inr cs)
          \<and> get_vopr_assignments_part001 env g' cs = Some (out2, Inr asg)
          \<and> \<not> (1 \<le> current_vopr g' \<and> current_vopr g' \<le> int (length asg)) \<longrightarrow>
          main_part001 exec env debug s = Some (out0 @ out1 @ out2 @ [Println asg], None, s)"
  proof (intro allI impI, elim conjE)
    fix out0 g' out1 cs out2 asg
    assume "set_environment_variables env (initial_globals debug) = (out0, Inr g')"
      and "get_commit_hashes env g' = Some (out1, Inr cs)"
      and "get_vopr_assignments_part001 env g' cs = Some (out2, Inr asg)"
      and "\<not> (1 \<le> current_vopr g' \<and> current_vopr g' \<le> int (length asg))"
    then show "main_part001 exec env debug s
                 = Some (out0 @ out1 @ out2 @ [Println asg], None, s)"
      by (auto simp add: main_part001_def main_checkout_cases)
  qed
  show ?thesis
    by (intro conjI) (rule a b c d e f h)+
qed

lemma far_environment:
  "set_environment_variables far_tracker (initial_globals False) = ([], Inr far_globals)"
  by (simp add: set_environment_variables_def far_tracker_def example_tracker_def
        initial_globals_def far_globals_def example_globals_def Atoi_def digits_value_def
        is_digit_def TrimRight_def log_debug_def Let_def)

lemma far_pull_requests:
  "get_pull_requests far_tracker far_globals =
     ([], Inr [labelled_issue ''a'', plain_issue, labelled_issue ''b''])"
  by (simp add: get_pull_requests_def decode_response_def far_tracker_def example_tracker_def
        far_globals_def example_globals_def ok_response_def)

lemma far_branch_names:
  "get_branch_names far_globals [labelled_issue ''a'', plain_issue, labelled_issue ''b'']
     = [''a'', ''b'']"
  by (simp add: get_branch_names_def labelled_issue_def plain_issue_def Cut_def
        far_globals_def example_globals_def)

lemma far_assignments:
  "get_vopr_assignments far_globals [''a'', ''b''] = Some (Inr [''main'', ''a'', ''a'', ''b''])"
  by (simp add: assignments_closed far_globals_def example_globals_def signed_divide_int_def
        signed_modulo_int_def)

theorem main_checkout_in_bounds_witness:
  "main_checkout toy_git far_globals [''main'', ''a'', ''a'', ''b''] ''main'' = ([], None, ''main'')
   \<and> go_index [''main'', ''a'', ''a'', ''b''] (current_vopr example_globals - 1) = Inr ''a''
   \<and> snd (snd (main_checkout toy_git example_globals [''main'', ''a'', ''a'', ''b''] ''main''))
       = ''a''
   \<and> main toy_git far_tracker False ''main''
       = Some ([Println [''main'', ''a'', ''a'', ''b'']], None, ''main'')"
proof -
  let ?asg = "[''main'', ''a'', ''a'', ''b'']"
  note thm_far = main_checkout_in_bounds
    [where exec = toy_git and g = far_globals and vopr_assignments = ?asg and s = "''main''"
       and env = far_tracker and debug = False]
  note thm_in = main_checkout_in_bounds
    [where exec = toy_git and g = example_globals and vopr_assignments = ?asg
       and s = "''main''" and env = far_tracker and debug = False]
  have far: "\<not> (1 \<le> current_vopr far_globals \<and> current_vopr far_globals \<le> int (length ?asg))"
    by (simp add: far_globals_def)
  have inr: "1 \<le> current_vopr example_globals
             \<and> current_vopr example_globals \<le> int (length ?asg)"
    by (simp add: example_globals_def)
  have one: "main_checkout toy_git far_globals ?asg ''main'' = ([], None, ''main'')"
    using thm_far far by (elim conjE) (rule mp)
  have two: "go_index ?asg (current_vopr example_globals - 1)
               = Inr (?asg ! nat (current_vopr example_globals - 1))
             \<and> snd (snd (main_checkout toy_git example_globals ?asg ''main''))
               = snd (snd (checkout_branch toy_git (?asg ! nat (current_vopr example_globals - 1))
                      (tigerbeetle_directory example_globals
                       @ itoa (current_vopr example_globals)) ''main''))"
    using thm_in inr by (elim conjE) simp
  have idx: "?asg ! nat (current_vopr example_globals - 1) = ''a''"
    by (simp add: example_globals_def)
  have co: "snd (snd (checkout_branch toy_git ''a'' d ''main'')) = ''a''" for d
    by (simp add: checkout_branch_def toy_git_def)
  from thm_far
  have f6: "\<forall>out0 g' out1 prs asg.
          set_environment_variables far_tracker (initial_globals False) = (out0, Inr g')
          \<and> get_pull_requests far_tracker g' = (out1, Inr prs)
          \<and> get_vopr_assignments g' (get_branch_names g' prs) = Some (Inr asg)
          \<and> \<not> (1 \<le> current_vopr g' \<and> current_vopr g' \<le> int (length asg)) \<longrightarrow>
          main toy_git far_tracker False ''main''
            = Some (out0 @ out1 @ [Println asg], None, ''main'')"
    by (elim conjE)
  have three: "main toy_git far_tracker False ''main''
       = Some ([] @ [] @ [Println ?asg], None, ''main'')"
    by (rule f6 [rule_format, of "[]" far_globals "[]"
                   "[labelled_issue ''a'', plain_issue, labelled_issue ''b'']" ?asg])
       (intro conjI far_environment far_pull_requests far,
        simp add: far_branch_names far_assignments)
  show ?thesis
    using one two three by (simp add: idx co)
qed

subsection \<open>set_environment_variables, variable by variable\<close>

lemma Atoi_empty: "Atoi [] = Inl ''invalid syntax''"
  by (simp add: Atoi_def)

lemma env1:
  "LookupEnv env ''TIGERBEETLE_DIRECTORY'' = None \<Longrightarrow>
   ends_with_error (set_environment_variables env g)
     ''Could not find TIGERBEETLE_DIRECTORY environmental variable'' (OsExit 1)"
  by (simp add: set_environment_variables_def ends_with_error_def log_error_def log_message_def)

lemma env2:
  "LookupEnv env ''TIGERBEETLE_DIRECTORY'' = Some [] \<Longrightarrow>
   ends_with_error (set_environment_variables env g)
     ''TIGERBEETLE_DIRECTORY was empty'' (OsExit 1)"
  by (simp add: set_environment_variables_def ends_with_error_def log_error_def log_message_def)

lemma env3:
  "present env ''TIGERBEETLE_DIRECTORY'' \<Longrightarrow> LookupEnv env ''REPOSITORY_URL'' = None \<Longrightarrow>
   ends_with_error (set_environment_variables env g)
     ''Could not find REPOSITORY_URL environmental variable'' (OsExit 1)"
  by (simp add: set_environment_variables_def ends_with_error_def log_error_def log_message_def
        present_def Let_def split: option.splits)

lemma env4:
  "present env ''TIGERBEETLE_DIRECTORY'' \<Longrightarrow> LookupEnv env ''REPOSITORY_URL'' = Some [] \<Longrightarrow>
   ends_with_error (set_environment_variables env g) ''REPOSITORY_URL was empty'' (OsExit 1)"
  by (simp add: set_environment_variables_def ends_with_error_def log_error_def log_message_def
        present_def Let_def split: option.splits)

lemma env5:
  "present env ''TIGERBEETLE_DIRECTORY'' \<Longrightarrow> present env ''REPOSITORY_URL'' \<Longrightarrow>
   LookupEnv env ''NUM_VOPRS'' = None \<Longrightarrow>
   ends_with_error (set_environment_variables env g)
     ''Could not find NUM_VOPRS environmental variable'' (OsExit 1)"
  by (simp add: set_environment_variables_def ends_with_error_def log_error_def log_message_def
        present_def Let_def split: option.splits)

lemma env6:
  "present env ''TIGERBEETLE_DIRECTORY'' \<Longrightarrow> present env ''REPOSITORY_URL'' \<Longrightarrow>
   LookupEnv env ''NUM_VOPRS'' = Some [] \<Longrightarrow>
   ends_with_error (set_environment_variables env g) ''NUM_VOPRS was empty'' (OsExit 1)"
  by (simp add: set_environment_variables_def ends_with_error_def log_error_def log_message_def
        present_def Let_def split: option.splits)

lemma env7:
  "present env ''TIGERBEETLE_DIRECTORY'' \<Longrightarrow> present env ''REPOSITORY_URL'' \<Longrightarrow>
   LookupEnv env ''NUM_VOPRS'' = Some v \<Longrightarrow> v \<noteq> [] \<Longrightarrow> Atoi v = Inl err \<Longrightarrow>
   ends_with_error (set_environment_variables env g)
     ''unable to convert num_voprs to a an integer value'' (GoPanic (PanicValue err))"
  by (simp add: set_environment_variables_def ends_with_error_def log_error_def log_message_def
        present_def Let_def split: option.splits)

lemma env8:
  "present env ''TIGERBEETLE_DIRECTORY'' \<Longrightarrow> present env ''REPOSITORY_URL'' \<Longrightarrow>
   LookupEnv env ''NUM_VOPRS'' = Some v \<Longrightarrow> Atoi v = Inr n \<Longrightarrow> n \<le> 0 \<Longrightarrow>
   ends_with_error (set_environment_variables env g)
     ''NUM_VOPRS must be an integer greater than 0'' (OsExit 1)"
  by (auto simp add: set_environment_variables_def ends_with_error_def log_error_def
        log_message_def present_def Let_def Atoi_empty split: option.splits)

lemma env9:
  "present env ''TIGERBEETLE_DIRECTORY'' \<Longrightarrow> present env ''REPOSITORY_URL'' \<Longrightarrow>
   positive_int env ''NUM_VOPRS'' \<Longrightarrow> LookupEnv env ''CURRENT_VOPR'' = None \<Longrightarrow>
   ends_with_error (set_environment_variables env g)
     ''Could not find CURRENT_VOPR environmental variable'' (OsExit 1)"
  by (auto simp add: set_environment_variables_def ends_with_error_def log_error_def
        log_message_def present_def positive_int_def Let_def Atoi_empty
        split: option.splits sum.splits)

lemma env10:
  "present env ''TIGERBEETLE_DIRECTORY'' \<Longrightarrow> present env ''REPOSITORY_URL'' \<Longrightarrow>
   positive_int env ''NUM_VOPRS'' \<Longrightarrow> LookupEnv env ''CURRENT_VOPR'' = Some [] \<Longrightarrow>
   ends_with_error (set_environment_variables env g) ''CURRENT_VOPR was empty'' (OsExit 1)"
  by (auto simp add: set_environment_variables_def ends_with_error_def log_error_def
        log_message_def present_def positive_int_def Let_def Atoi_empty
        split: option.splits sum.splits)

lemma env11:
  "present env ''TIGERBEETLE_DIRECTORY'' \<Longrightarrow> present env ''REPOSITORY_URL'' \<Longrightarrow>
   positive_int env ''NUM_VOPRS'' \<Longrightarrow>
   LookupEnv env ''CURRENT_VOPR'' = Some v \<Longrightarrow> v \<noteq> [] \<Longrightarrow> Atoi v = Inl err \<Longrightarrow>
   ends_with_error (set_environment_variables env g)
     ''unable to convert current_vopr to a an integer value'' (GoPanic (PanicValue err))"
  by (auto simp add: set_environment_variables_def ends_with_error_def log_error_def
        log_message_def present_def positive_int_def Let_def Atoi_empty
        split: option.splits sum.splits)

lemma env12:
  "present env ''TIGERBEETLE_DIRECTORY'' \<Longrightarrow> present env ''REPOSITORY_URL'' \<Longrightarrow>
   positive_int env ''NUM_VOPRS'' \<Longrightarrow>
   LookupEnv env ''CURRENT_VOPR'' = Some v \<Longrightarrow> Atoi v = Inr n \<Longrightarrow> n \<le> 0 \<Longrightarrow>
   ends_with_error (set_environment_variables env g)
     ''CURRENT_VOPR must be an integer greater than 0'' (OsExit 1)"
  by (auto simp add: set_environment_variables_def ends_with_error_def log_error_def
        log_message_def present_def positive_int_def Let_def Atoi_empty
        split: option.splits sum.splits)

lemma env_success:
  "(\<exists>g'. snd (set_environment_variables env g) = Inr g') =
     (present env ''TIGERBEETLE_DIRECTORY'' \<and> present env ''REPOSITORY_URL''
      \<and> positive_int env ''NUM_VOPRS'' \<and> positive_int env ''CURRENT_VOPR'')"
  by (auto simp add: set_environment_variables_def present_def positive_int_def Let_def
        Atoi_empty split: option.splits sum.splits)

text \<open>
  Claim C7, as the code has it. The variables are read in the order
  \<open>TIGERBEETLE_DIRECTORY\<close>, \<open>REPOSITORY_URL\<close>, \<open>NUM_VOPRS\<close>, \<open>CURRENT_VOPR\<close>. The first
  one that is missing or empty, with those before it valid, ends the process with exit
  code 1 after an error line that names it; so does a value of \<open>NUM_VOPRS\<close> or
  \<open>CURRENT_VOPR\<close> that is an integer not above 0. A value of these two that is not an
  integer is logged and ends the process with a panic, not with \<open>os.Exit(1)\<close>. The call
  succeeds exactly when all four are present and the two numbers are positive integers.
\<close>

theorem configuration_failures:
  "(LookupEnv env ''TIGERBEETLE_DIRECTORY'' = None \<longrightarrow>
      ends_with_error (set_environment_variables env g)
        ''Could not find TIGERBEETLE_DIRECTORY environmental variable'' (OsExit 1))
   \<and> (LookupEnv env ''TIGERBEETLE_DIRECTORY'' = Some [] \<longrightarrow>
      ends_with_error (set_environment_variables env g)
        ''TIGERBEETLE_DIRECTORY was empty'' (OsExit 1))
   \<and> (present env ''TIGERBEETLE_DIRECTORY'' \<longrightarrow>
        (LookupEnv env ''REPOSITORY_URL'' = None \<longrightarrow>
           ends_with_error (set_environment_variables env g)
             ''Could not find REPOSITORY_URL environmental variable'' (OsExit 1))
      \<and> (LookupEnv env ''REPOSITORY_URL'' = Some [] \<longrightarrow>
           ends_with_error (set_environment_variables env g)
             ''REPOSITORY_URL was empty'' (OsExit 1)))
   \<and> (present env ''TIGERBEETLE_DIRECTORY'' \<and> present env ''REPOSITORY_URL'' \<longrightarrow>
        (LookupEnv env ''NUM_VOPRS'' = None \<longrightarrow>
           ends_with_error (set_environment_variables env g)
             ''Could not find NUM_VOPRS environmental variable'' (OsExit 1))
      \<and> (LookupEnv env ''NUM_VOPRS'' = Some [] \<longrightarrow>
           ends_with_error (set_environment_variables env g) ''NUM_VOPRS was empty'' (OsExit 1))
      \<and> (\<forall>v err. LookupEnv env ''NUM_VOPRS'' = Some v \<and> v \<noteq> [] \<and> Atoi v = Inl err \<longrightarrow>
           ends_with_error (set_environment_variables env g)
             ''unable to convert num_voprs to a an integer value'' (GoPanic (PanicValue err)))
      \<and> (\<forall>v n. LookupEnv env ''NUM_VOPRS'' = Some v \<and> Atoi v = Inr n \<and> n \<le> 0 \<longrightarrow>
           ends_with_error (set_environment_variables env g)
             ''NUM_VOPRS must be an integer greater than 0'' (OsExit 1)))
   \<and> (present env ''TIGERBEETLE_DIRECTORY'' \<and> present env ''REPOSITORY_URL''
        \<and> positive_int env ''NUM_VOPRS'' \<longrightarrow>
        (LookupEnv env ''CURRENT_VOPR'' = None \<longrightarrow>
           ends_with_error (set_environment_variables env g)
             ''Could not find CURRENT_VOPR environmental variable'' (OsExit 1))
      \<and> (LookupEnv env ''CURRENT_VOPR'' = Some [] \<longrightarrow>
           ends_with_error (set_environment_variables env g)
             ''CURRENT_VOPR was empty'' (OsExit 1))
      \<and> (\<forall>v err. LookupEnv env ''CURRENT_VOPR'' = Some v \<and> v \<noteq> [] \<and> Atoi v = Inl err \<longrightarrow>
           ends_with_error (set_environment_variables env g)
             ''unable to convert current_vopr to a an integer value''
             (GoPanic (PanicValue err)))
      \<and> (\<forall>v n. LookupEnv env ''CURRENT_VOPR'' = Some v \<and> Atoi v = Inr n \<and> n \<le> 0 \<longrightarrow>
           ends_with_error (set_environment_variables env g)
             ''CURRENT_VOPR must be an integer greater than 0'' (OsExit 1)))
   \<and> ((\<exists>g'. snd (set_environment_variables env g) = Inr g') =
        (present env ''TIGERBEETLE_DIRECTORY'' \<and> present env ''REPOSITORY_URL''
         \<and> positive_int env ''NUM_VOPRS'' \<and> positive_int env ''CURRENT_VOPR''))"
  by (intro conjI impI allI; (elim conjE)?;
      (rule env1 env2 env3 env4 env5 env6 env7 env8 env9 env10 env11 env12 env_success;
       assumption))

lemma non_integer_lookups:
  "present non_integer_env ''TIGERBEETLE_DIRECTORY''"
  "present non_integer_env ''REPOSITORY_URL''"
  "LookupEnv non_integer_env ''NUM_VOPRS'' = Some ''four''"
  "Atoi ''four'' = Inl ''invalid syntax''"
  by (simp_all add: non_integer_env_def example_tracker_def present_def Atoi_def is_digit_def)

theorem configuration_failures_witness:
  "ends_with_error (set_environment_variables empty_env (initial_globals False))
     ''Could not find TIGERBEETLE_DIRECTORY environmental variable'' (OsExit 1)
   \<and> ends_with_error (set_environment_variables non_integer_env (initial_globals False))
       ''unable to convert num_voprs to a an integer value''
       (GoPanic (PanicValue ''invalid syntax''))"
proof -
  have e: "LookupEnv empty_env ''TIGERBEETLE_DIRECTORY'' = None"
    by (simp add: empty_env_def)
  have one: "ends_with_error (set_environment_variables empty_env (initial_globals False))
        ''Could not find TIGERBEETLE_DIRECTORY environmental variable'' (OsExit 1)"
    by (rule configuration_failures
              [of empty_env "initial_globals False", THEN conjunct1, THEN mp, OF e])
  have ne: "''four'' \<noteq> ([] :: string)" by simp
  note c4 = configuration_failures
              [of non_integer_env "initial_globals False",
               THEN conjunct2, THEN conjunct2, THEN conjunct2, THEN conjunct1, THEN mp,
               OF conjI [OF non_integer_lookups(1) non_integer_lookups(2)]]
  have two: "ends_with_error
           (set_environment_variables non_integer_env (initial_globals False))
           ''unable to convert num_voprs to a an integer value''
           (GoPanic (PanicValue ''invalid syntax''))"
    by (rule c4 [THEN conjunct2, THEN conjunct2, THEN conjunct1, rule_format,
                 OF conjI [OF non_integer_lookups(3) conjI [OF ne non_integer_lookups(4)]]])
  show ?thesis using one two by (rule conjI)
qed

text \<open>
  Claim C7 as stated fails for a value that is not an integer: with \<open>NUM_VOPRS=four\<close>
  the process ends with a panic (a Go panic ends a process with status 2), where the
  claim has exit code 1.
\<close>

theorem non_integer_value_panics:
  "snd (set_environment_variables non_integer_env (initial_globals False))
     = Inl (GoPanic (PanicValue ''invalid syntax''))
   \<and> snd (set_environment_variables non_integer_env (initial_globals False)) \<noteq> Inl (OsExit 1)"
proof -
  have ne: "''four'' \<noteq> ([] :: string)" by simp
  have "ends_with_error (set_environment_variables non_integer_env (initial_globals False))
           ''unable to convert num_voprs to a an integer value''
           (GoPanic (PanicValue ''invalid syntax''))"
    by (rule env7 [OF non_integer_lookups(1) non_integer_lookups(2) non_integer_lookups(3) ne
                      non_integer_lookups(4)])
  then show ?thesis by (simp add: ends_with_error_def)
qed

subsection \<open>Revision enumeration\<close>

lemma decode_answer:
  "snd (decode_response got) = (case answer got of None \<Rightarrow> snd (decode_response got)
                                | Some v \<Rightarrow> Inr v)"
  "answer got = None \<Longrightarrow> \<exists>h. snd (decode_response got) = Inl h"
  "answer got = Some v \<Longrightarrow> decode_response got = ([], Inr v)"
  by (auto simp add: decode_response_def answer_def
        split: http_get.splits option.splits sum.splits if_splits)

lemma itoa_30: "itoa 30 = ''30''"
  by (simp add: itoa_def)

lemma page_fetched:
  assumes "tracker_page env g j = Some prs"
  shows "\<exists>out. get_pull_requests_part001 env g 30 j = (out, Inr prs)"
  using decode_answer(3) [OF assms [unfolded tracker_page_def]]
  by (simp add: get_pull_requests_part001_def itoa_30)

lemma commit_resolved:
  assumes "head_of_branch env g b = Some c"
  shows "get_commits env g b = ([], Inr c)"
proof -
  from assms obtain cs where
    a: "answer (Get_commits env (repository_url g @ ''/commits?per_page=1&sha='' @ b)) = Some cs"
    and c: "c = (case cs of [] \<Rightarrow> [] | x # xs \<Rightarrow> Sha x)"
    by (auto simp add: head_of_branch_def split: option.splits list.splits)
  show ?thesis
    using decode_answer(3) [OF a] c
    by (cases cs) (simp_all add: get_commits_def)
qed

lemma labels_spec:
  assumes "list_ex (\<lambda>l. Name l = ''vopr'') ls \<Longrightarrow> resolves env g e"
    and "list_ex (\<lambda>l. Name l = ''vopr'') ls \<Longrightarrow> vopr_labelled e"
  shows "get_commit_hashes_labels env g e ls vc =
           ([], Inr (vc @ (if list_ex (\<lambda>l. Name l = ''vopr'') ls
                            then head_commit env g e else [])))"
  using assms
proof (induction ls)
  case Nil
  then show ?case by simp
next
  case (Cons l ls)
  show ?case
  proof (cases "Name l = ''vopr''")
    case False
    then show ?thesis using Cons by simp
  next
    case True
    then have ok: "resolves env g e" and lab: "vopr_labelled e"
      using Cons.prems by simp_all
    obtain before bn found where c: "Cut (Label (Head e)) '':'' = (before, bn, found)"
      by (cases "Cut (Label (Head e)) '':''") auto
    show ?thesis
    proof (cases "found \<and> bn \<noteq> []")
      case False
      then show ?thesis using True c
        by (auto simp add: head_commit_def head_branch_def)
    next
      case fb: True
      then have hb: "head_branch e = Some bn"
        using c by (simp add: head_branch_def)
      from ok lab hb obtain cm where h: "head_of_branch env g bn = Some cm"
        by (auto simp add: resolves_def)
      show ?thesis using True c fb commit_resolved [OF h]
        by (simp add: head_commit_def hb h)
    qed
  qed
qed

lemma labels_kept:
  assumes "resolves env g e"
  shows "get_commit_hashes_labels env g e (Labels e) vc = ([], Inr (vc @ kept_commit env g e))"
proof -
  have "get_commit_hashes_labels env g e (Labels e) vc =
           ([], Inr (vc @ (if list_ex (\<lambda>l. Name l = ''vopr'') (Labels e)
                            then head_commit env g e else [])))"
    by (rule labels_spec) (simp_all add: assms vopr_labelled_def)
  then show ?thesis
    by (simp add: kept_commit_def vopr_labelled_def)
qed

lemma length_kept_commit: "length (kept_commit env g e) \<le> 1"
  by (simp add: kept_commit_def head_commit_def split: option.splits)

lemma elements_spec:
  fixes n :: int
  assumes requested: "n = go_int (num_voprs g - 1)"
  shows "list_all (resolves env g) (needed env g (nat n - length vc) prs) \<Longrightarrow>
         int (length vc) < n \<Longrightarrow>
         get_commit_hashes_elements env g prs vc =
           ([], Inr (vc @ take (nat n - length vc) (page_commits env g prs)))"
proof (induction prs arbitrary: vc)
  case Nil
  then show ?case by (simp add: page_commits_def)
next
  case (Cons e prs)
  let ?k = "kept_commit env g e"
  have pos: "nat n - length vc \<noteq> 0" using Cons.prems(2) by simp
  from Cons.prems(1) pos have re: "resolves env g e"
    and rest: "list_all (resolves env g) (needed env g (nat n - length vc - length ?k) prs)"
    by simp_all
  note l = labels_kept [OF re, of vc]
  have pc: "page_commits env g (e # prs) = ?k @ page_commits env g prs"
    by (simp add: page_commits_def)
  have k1: "length ?k \<le> 1" by (rule length_kept_commit)
  show ?case
  proof (cases "int (length (vc @ ?k)) = n")
    case True
    then have "nat n - length vc = length ?k"
      by auto
    then have "take (nat n - length vc) (page_commits env g (e # prs)) = ?k"
      by (simp add: pc)
    then show ?thesis using l True requested by simp
  next
    case False
    then have lt: "int (length (vc @ ?k)) < n"
      using Cons.prems(2) k1 by simp
    have rest': "list_all (resolves env g) (needed env g (nat n - length (vc @ ?k)) prs)"
      using rest by (simp add: diff_diff_add)
    have r: "get_commit_hashes_elements env g prs (vc @ ?k) =
           ([], Inr ((vc @ ?k) @ take (nat n - length (vc @ ?k)) (page_commits env g prs)))"
      using Cons.IH [OF rest' lt] .
    have "length ?k \<le> nat n - length vc"
      using lt by simp
    then have "take (nat n - length vc) (page_commits env g (e # prs))
          = ?k @ take (nat n - length (vc @ ?k)) (page_commits env g prs)"
      by (simp add: pc)
    then show ?thesis using l False r requested by simp
  qed
qed

lemma go_int_id: "- (2 ^ 63) \<le> n \<Longrightarrow> n < 2 ^ 63 \<Longrightarrow> go_int n = n"
  by (simp add: go_int_def)

lemma go_int_least: "go_int (- (2 ^ 63) - 1) = 2 ^ 63 - 1"
  by (simp add: go_int_def)

lemma collected_zero: "collected env g pages 0 = []"
  by (simp add: collected_def)

lemma collected_step:
  "1 \<le> i \<Longrightarrow> collected env g pages i
     = collected env g pages (i - 1) @ page_commits env g (pages i)"
  by (simp add: collected_def upto_rec2)

lemma pages_done:
  "\<not> int (length vc) < go_int (num_voprs g - 1) \<Longrightarrow>
   get_commit_hashes_pages env g i vc out = Some (out, Inr vc)"
  by (subst get_commit_hashes_pages.simps) simp

lemma pages_spec:
  fixes n :: int
  assumes n: "n = go_int (num_voprs g - 1)"
    and big: "k < 2 ^ 63"
    and pulls: "\<forall>j. 1 \<le> j \<and> j \<le> k \<longrightarrow> tracker_page env g j = Some (pages j)"
    and res: "\<forall>j. 1 \<le> j \<and> j \<le> k \<longrightarrow>
                list_all (resolves env g)
                  (needed env g (nat n - length (collected env g pages (j - 1))) (pages j))"
    and more: "\<forall>j. 1 \<le> j \<and> j < k \<longrightarrow>
                 int (length (collected env g pages j)) < n \<and> 30 \<le> length (pages j)"
    and stop: "n \<le> int (length (collected env g pages k)) \<or> length (pages k) < 30"
  shows "d = nat (k - i) \<Longrightarrow> 1 \<le> i \<Longrightarrow> i \<le> k \<Longrightarrow>
         int (length (collected env g pages (i - 1))) < n \<Longrightarrow>
         \<exists>out'. get_commit_hashes_pages env g i (collected env g pages (i - 1)) out =
           Some (out', Inr (take (nat n) (collected env g pages k)))"
proof (induction d arbitrary: i out)
  case 0
  then have ik: "i = k" by simp
  let ?vc = "collected env g pages (k - 1)"
  have lt: "int (length ?vc) < n" using 0 ik by simp
  have lt': "int (length ?vc) < go_int (num_voprs g - 1)" using lt n by simp
  obtain out1 where p: "get_pull_requests_part001 env g 30 k = (out1, Inr (pages k))"
    using pulls 0 ik page_fetched by blast
  have "list_all (resolves env g) (needed env g (nat n - length ?vc) (pages k))"
    using res 0 ik by simp
  note e = elements_spec [OF n this lt]
  have ck: "collected env g pages k = ?vc @ page_commits env g (pages k)"
    using collected_step [of k env g pages] 0 ik by simp
  have tk: "take (nat n) (collected env g pages k)
              = ?vc @ take (nat n - length ?vc) (page_commits env g (pages k))"
    using lt by (simp add: ck)
  show ?case
  proof (cases "length (pages k) < 30")
    case True
    show ?thesis
      unfolding ik
      by (subst get_commit_hashes_pages.simps) (simp add: lt' p e True tk)
  next
    case False
    then have "n \<le> int (length (collected env g pages k))"
      using stop by simp
    then have "length (take (nat n) (collected env g pages k)) = nat n" by simp
    then have full: "\<not> int (length (take (nat n) (collected env g pages k)))
                         < go_int (num_voprs g - 1)"
      using lt n by simp
    have "get_commit_hashes_pages env g k ?vc out =
          get_commit_hashes_pages env g (go_int (k + 1)) (take (nat n) (collected env g pages k))
            (out @ out1)"
      by (subst get_commit_hashes_pages.simps) (simp add: lt' p e False tk)
    then show ?thesis
      unfolding ik by (simp add: pages_done [OF full])
  qed
next
  case (Suc d)
  then have ik: "i < k" by simp
  let ?vc = "collected env g pages (i - 1)"
  have lt: "int (length ?vc) < n" using Suc.prems by simp
  have lt': "int (length ?vc) < go_int (num_voprs g - 1)" using lt n by simp
  obtain out1 where p: "get_pull_requests_part001 env g 30 i = (out1, Inr (pages i))"
    using pulls Suc.prems page_fetched by blast
  have "list_all (resolves env g) (needed env g (nat n - length ?vc) (pages i))"
    using res Suc.prems by simp
  note e = elements_spec [OF n this lt]
  have ci: "collected env g pages i = ?vc @ page_commits env g (pages i)"
    using collected_step [of i env g pages] Suc.prems by simp
  have m: "int (length (collected env g pages i)) < n" "30 \<le> length (pages i)"
    using more Suc.prems ik by simp_all
  have "length (page_commits env g (pages i)) \<le> nat n - length ?vc"
    using m(1) by (simp add: ci)
  then have tk: "?vc @ take (nat n - length ?vc) (page_commits env g (pages i))
                   = collected env g pages i"
    by (simp add: ci)
  have next_page: "go_int (i + 1) = i + 1"
    using Suc.prems ik big by (intro go_int_id) simp_all
  have step: "get_commit_hashes_pages env g i ?vc out =
          get_commit_hashes_pages env g (i + 1) (collected env g pages i) (out @ out1)"
    using m(2) by (subst get_commit_hashes_pages.simps) (simp add: lt' p e tk next_page)
  have "\<exists>out'. get_commit_hashes_pages env g (i + 1) (collected env g pages (i + 1 - 1))
                  (out @ out1) =
           Some (out', Inr (take (nat n) (collected env g pages k)))"
  proof (rule Suc.IH)
    show "d = nat (k - (i + 1))" using Suc.prems by simp
    show "1 \<le> i + 1" using Suc.prems by simp
    show "i + 1 \<le> k" using ik by simp
    show "int (length (collected env g pages (i + 1 - 1))) < n"
      using m(1) by simp
  qed
  then show ?case using step by simp
qed

text \<open>
  Claim C8. \<open>get_commit_hashes\<close> asks for \<open>num_voprs - 1\<close> commits (a 64-bit difference:
  \<open>num_voprs - 1\<close> itself above the least 64-bit value, and the greatest 64-bit value at
  the least). When that is not positive nothing is fetched and the result is empty.
  Otherwise the pull requests are listed page by page, 30 to a page, from page 1 on;
  those labelled \<open>vopr\<close> are kept and each is resolved to the commit id the tracker has
  at the head of its branch; and the listing stops as soon as the count is reached or a
  fetched page has fewer than 30 entries. So when page \<open>k\<close> is the first page at which
  the count is reached or that is short, the tracker answers for the pages up to it,
  and the pull requests looked at on them resolve, the result is the first
  \<open>num_voprs - 1\<close> of the commits the pages 1 to \<open>k\<close> give, in their order. Nothing is
  asked of the pages after \<open>k\<close>, nor of the pull requests of page \<open>k\<close> after the one that
  gives the last commit.
\<close>

theorem get_commit_hashes_pages_until_done:
  "(go_int (num_voprs g - 1) \<le> 0 \<longrightarrow> get_commit_hashes env g = Some ([], Inr []))
   \<and> (0 < go_int (num_voprs g - 1) \<and> 1 \<le> k \<and> k < 2 ^ 63
      \<and> (\<forall>j. 1 \<le> j \<and> j \<le> k \<longrightarrow>
             tracker_page env g j = Some (pages j)
             \<and> list_all (resolves env g)
                 (needed env g
                    (nat (go_int (num_voprs g - 1)) - length (collected env g pages (j - 1)))
                    (pages j)))
      \<and> (\<forall>j. 1 \<le> j \<and> j < k \<longrightarrow>
             int (length (collected env g pages j)) < go_int (num_voprs g - 1)
             \<and> 30 \<le> length (pages j))
      \<and> (go_int (num_voprs g - 1) \<le> int (length (collected env g pages k))
         \<or> length (pages k) < 30)
      \<longrightarrow> (\<exists>out. get_commit_hashes env g =
             Some (out, Inr (take (nat (go_int (num_voprs g - 1)))
                               (collected env g pages k)))))
   \<and> (- (2 ^ 63) < num_voprs g \<and> num_voprs g \<le> 2 ^ 63 \<longrightarrow>
        go_int (num_voprs g - 1) = num_voprs g - 1)
   \<and> (num_voprs g = - (2 ^ 63) \<longrightarrow> go_int (num_voprs g - 1) = 2 ^ 63 - 1)"
proof (intro conjI impI)
  assume "go_int (num_voprs g - 1) \<le> 0"
  then have "\<not> int (length ([] :: string list)) < go_int (num_voprs g - 1)" by simp
  from pages_done [OF this] show "get_commit_hashes env g = Some ([], Inr [])"
    by (simp add: get_commit_hashes_def)
next
  let ?n = "go_int (num_voprs g - 1)"
  assume a: "0 < ?n \<and> 1 \<le> k \<and> k < 2 ^ 63
      \<and> (\<forall>j. 1 \<le> j \<and> j \<le> k \<longrightarrow>
             tracker_page env g j = Some (pages j)
             \<and> list_all (resolves env g)
                 (needed env g (nat ?n - length (collected env g pages (j - 1))) (pages j)))
      \<and> (\<forall>j. 1 \<le> j \<and> j < k \<longrightarrow>
             int (length (collected env g pages j)) < ?n \<and> 30 \<le> length (pages j))
      \<and> (?n \<le> int (length (collected env g pages k)) \<or> length (pages k) < 30)"
  then have n: "0 < ?n" and k: "1 \<le> k" and big: "k < 2 ^ 63" by simp_all
  have pulls: "\<forall>j. 1 \<le> j \<and> j \<le> k \<longrightarrow> tracker_page env g j = Some (pages j)"
    using a by simp
  have res: "\<forall>j. 1 \<le> j \<and> j \<le> k \<longrightarrow>
               list_all (resolves env g)
                 (needed env g (nat ?n - length (collected env g pages (j - 1))) (pages j))"
    using a by simp
  have more: "\<forall>j. 1 \<le> j \<and> j < k \<longrightarrow>
                int (length (collected env g pages j)) < ?n \<and> 30 \<le> length (pages j)"
    using a by (elim conjE)
  have stop: "?n \<le> int (length (collected env g pages k)) \<or> length (pages k) < 30"
    using a by (elim conjE)
  have start: "int (length (collected env g pages (1 - 1))) < ?n"
    using n by (simp add: collected_zero)
  from pages_spec [OF refl big pulls res more stop refl _ k start, of "[]"]
  show "\<exists>out. get_commit_hashes env g =
          Some (out, Inr (take (nat ?n) (collected env g pages k)))"
    by (simp add: get_commit_hashes_def collected_zero)
next
  assume "- (2 ^ 63) < num_voprs g \<and> num_voprs g \<le> 2 ^ 63"
  then show "go_int (num_voprs g - 1) = num_voprs g - 1"
    by (intro go_int_id) simp_all
next
  assume "num_voprs g = - (2 ^ 63)"
  then show "go_int (num_voprs g - 1) = 2 ^ 63 - 1"
    by (simp add: go_int_def)
qed

lemma needed_subset: "set (needed env g n prs) \<subseteq> set prs"
  by (induction prs arbitrary: n) auto

lemma needed_zero: "needed env g 0 prs = []"
  by (cases prs) simp_all

lemma needed_resolves:
  "list_all (resolves env g) prs \<Longrightarrow> list_all (resolves env g) (needed env g n prs)"
  using needed_subset [of env g n prs] by (auto simp add: list_all_iff)

lemma example_tracker_pages:
  "tracker_page example_tracker (example_globals\<lparr>num_voprs := n\<rparr>) 1 = Some (example_pages 1)"
  "tracker_page example_tracker (example_globals\<lparr>num_voprs := n\<rparr>) 2 = Some (example_pages 2)"
  "tracker_page stale_tracker (example_globals\<lparr>num_voprs := n\<rparr>) 1 = Some stale_page"
  by (simp_all add: tracker_page_def answer_def example_tracker_def stale_tracker_def
        example_globals_def ok_response_def example_pages_def itoa_def)

lemma example_heads:
  "head_of_branch example_tracker (example_globals\<lparr>num_voprs := n\<rparr>) ''a'' = Some ''c1''"
  "head_of_branch example_tracker (example_globals\<lparr>num_voprs := n\<rparr>) ''b'' = Some ''c2''"
  "head_of_branch stale_tracker (example_globals\<lparr>num_voprs := n\<rparr>) ''a'' = Some ''c1''"
  "head_of_branch stale_tracker (example_globals\<lparr>num_voprs := n\<rparr>) ''gone'' = None"
  by (simp_all add: head_of_branch_def answer_def example_tracker_def stale_tracker_def
        example_globals_def ok_response_def)

lemma example_issues:
  "vopr_labelled (labelled_issue b)" "\<not> vopr_labelled plain_issue"
  "head_branch (labelled_issue ''a'') = Some ''a''"
  "head_branch (labelled_issue ''b'') = Some ''b''"
  "head_branch (labelled_issue ''gone'') = Some ''gone''"
  by (simp_all add: vopr_labelled_def head_branch_def labelled_issue_def plain_issue_def Cut_def)

lemma example_kept:
  "kept_commit example_tracker (example_globals\<lparr>num_voprs := n\<rparr>) (labelled_issue ''a'')
     = [''c1'']"
  "kept_commit example_tracker (example_globals\<lparr>num_voprs := n\<rparr>) (labelled_issue ''b'')
     = [''c2'']"
  "kept_commit env g plain_issue = []"
  "kept_commit stale_tracker (example_globals\<lparr>num_voprs := n\<rparr>) (labelled_issue ''a'')
     = [''c1'']"
  "kept_commit stale_tracker (example_globals\<lparr>num_voprs := n\<rparr>) (labelled_issue ''gone'')
     = []"
  by (simp_all add: kept_commit_def head_commit_def example_issues example_heads)

lemma example_resolves:
  "resolves example_tracker (example_globals\<lparr>num_voprs := n\<rparr>) (labelled_issue ''a'')"
  "resolves example_tracker (example_globals\<lparr>num_voprs := n\<rparr>) (labelled_issue ''b'')"
  "resolves env g plain_issue"
  "resolves stale_tracker (example_globals\<lparr>num_voprs := n\<rparr>) (labelled_issue ''a'')"
  "\<not> resolves stale_tracker (example_globals\<lparr>num_voprs := n\<rparr>) (labelled_issue ''gone'')"
  by (simp_all add: resolves_def example_issues example_heads)

lemma example_page_commits:
  "page_commits example_tracker (example_globals\<lparr>num_voprs := n\<rparr>) (example_pages 1)
     = [''c1'']"
  "page_commits example_tracker (example_globals\<lparr>num_voprs := n\<rparr>) (example_pages 2)
     = [''c2'']"
  "page_commits stale_tracker (example_globals\<lparr>num_voprs := n\<rparr>) stale_page = [''c1'']"
  by (simp_all add: page_commits_def example_pages_def stale_page_def example_kept)

lemma upto_1: "[1..1] = [1::int]" "[1..2] = [1, 2::int]" "[1..0] = ([] :: int list)"
  by (simp_all add: upto.simps)

lemma example_collected:
  "collected env g pages 0 = []"
  "collected example_tracker (example_globals\<lparr>num_voprs := n\<rparr>) example_pages 1 = [''c1'']"
  "collected example_tracker (example_globals\<lparr>num_voprs := n\<rparr>) example_pages 2
     = [''c1'', ''c2'']"
  "collected stale_tracker (example_globals\<lparr>num_voprs := n\<rparr>) (\<lambda>j. stale_page) 1 = [''c1'']"
  by (simp_all add: collected_def upto_1 example_page_commits)

lemma example_pages_resolve:
  "list_all (resolves example_tracker (example_globals\<lparr>num_voprs := n\<rparr>)) (example_pages 1)"
  "list_all (resolves example_tracker (example_globals\<lparr>num_voprs := n\<rparr>)) (example_pages 2)"
  by (simp_all add: example_pages_def example_resolves list_all_iff)

lemma go_int_values:
  "go_int 0 = 0" "go_int 1 = 1" "go_int 3 = 3"
  "go_int (- 9223372036854775809) = 9223372036854775807"
  by (simp_all add: go_int_def)

lemma example_two_pages:
  assumes "2 < go_int (num_voprs (example_globals\<lparr>num_voprs := n\<rparr>) - 1)"
  shows "0 < go_int (num_voprs (example_globals\<lparr>num_voprs := n\<rparr>) - 1)
      \<and> (1::int) \<le> 2 \<and> (2::int) < 2 ^ 63
      \<and> (\<forall>j. 1 \<le> j \<and> j \<le> 2 \<longrightarrow>
             tracker_page example_tracker (example_globals\<lparr>num_voprs := n\<rparr>) j
               = Some (example_pages j)
             \<and> list_all (resolves example_tracker (example_globals\<lparr>num_voprs := n\<rparr>))
                 (needed example_tracker (example_globals\<lparr>num_voprs := n\<rparr>)
                    (nat (go_int (num_voprs (example_globals\<lparr>num_voprs := n\<rparr>) - 1))
                     - length (collected example_tracker (example_globals\<lparr>num_voprs := n\<rparr>)
                                 example_pages (j - 1)))
                    (example_pages j)))
      \<and> (\<forall>j. 1 \<le> j \<and> j < 2 \<longrightarrow>
             int (length (collected example_tracker (example_globals\<lparr>num_voprs := n\<rparr>)
                            example_pages j))
               < go_int (num_voprs (example_globals\<lparr>num_voprs := n\<rparr>) - 1)
             \<and> 30 \<le> length (example_pages j))
      \<and> (go_int (num_voprs (example_globals\<lparr>num_voprs := n\<rparr>) - 1)
            \<le> int (length (collected example_tracker (example_globals\<lparr>num_voprs := n\<rparr>)
                              example_pages 2))
         \<or> length (example_pages 2) < 30)"
proof -
  let ?g = "example_globals\<lparr>num_voprs := n\<rparr>"
  have two: "j = 1 \<or> j = 2" if "1 \<le> j \<and> j \<le> 2" for j :: int using that by arith
  have one: "j = 1" if "1 \<le> j \<and> j < 2" for j :: int using that by arith
  have a: "\<forall>j. 1 \<le> j \<and> j \<le> 2 \<longrightarrow>
             tracker_page example_tracker ?g j = Some (example_pages j)
             \<and> list_all (resolves example_tracker ?g)
                 (needed example_tracker ?g
                    (nat (go_int (num_voprs ?g - 1))
                     - length (collected example_tracker ?g example_pages (j - 1)))
                    (example_pages j))"
    using example_tracker_pages example_pages_resolve needed_resolves
    by (auto dest!: two)
  have b: "\<forall>j. 1 \<le> j \<and> j < 2 \<longrightarrow>
             int (length (collected example_tracker ?g example_pages j))
               < go_int (num_voprs ?g - 1)
             \<and> 30 \<le> length (example_pages j)"
    using assms by (auto dest!: one simp add: example_collected example_pages_def)
  have c: "go_int (num_voprs ?g - 1)
            \<le> int (length (collected example_tracker ?g example_pages 2))
         \<or> length (example_pages 2) < 30"
    by (simp add: example_pages_def)
  show ?thesis
    using assms a b c by (intro conjI) simp_all
qed

lemma example_one_page:
  assumes "env = example_tracker \<and> pages = example_pages
           \<or> env = stale_tracker \<and> pages = (\<lambda>j. stale_page)"
  shows "0 < go_int (num_voprs (example_globals\<lparr>num_voprs := 2\<rparr>) - 1)
      \<and> (1::int) \<le> 1 \<and> (1::int) < 2 ^ 63
      \<and> (\<forall>j. 1 \<le> j \<and> j \<le> 1 \<longrightarrow>
             tracker_page env (example_globals\<lparr>num_voprs := 2\<rparr>) j = Some (pages j)
             \<and> list_all (resolves env (example_globals\<lparr>num_voprs := 2\<rparr>))
                 (needed env (example_globals\<lparr>num_voprs := 2\<rparr>)
                    (nat (go_int (num_voprs (example_globals\<lparr>num_voprs := 2\<rparr>) - 1))
                     - length (collected env (example_globals\<lparr>num_voprs := 2\<rparr>)
                                 pages (j - 1)))
                    (pages j)))
      \<and> (\<forall>j. 1 \<le> j \<and> j < 1 \<longrightarrow>
             int (length (collected env (example_globals\<lparr>num_voprs := 2\<rparr>) pages j))
               < go_int (num_voprs (example_globals\<lparr>num_voprs := 2\<rparr>) - 1)
             \<and> 30 \<le> length (pages j))
      \<and> (go_int (num_voprs (example_globals\<lparr>num_voprs := 2\<rparr>) - 1)
            \<le> int (length (collected env (example_globals\<lparr>num_voprs := 2\<rparr>) pages 1))
         \<or> length (pages 1) < 30)"
proof -
  let ?g = "example_globals\<lparr>num_voprs := 2\<rparr>"
  have n: "go_int (num_voprs ?g - 1) = 1" by (simp add: go_int_values)
  have one: "j = 1" if "1 \<le> j \<and> j \<le> 1" for j :: int using that by arith
  have a: "\<forall>j. 1 \<le> j \<and> j \<le> 1 \<longrightarrow>
             tracker_page env ?g j = Some (pages j)
             \<and> list_all (resolves env ?g)
                 (needed env ?g
                    (nat (go_int (num_voprs ?g - 1)) - length (collected env ?g pages (j - 1)))
                    (pages j))"
    using assms
    by (auto dest!: one simp add: go_int_values example_collected example_tracker_pages
          example_pages_def stale_page_def example_kept example_resolves needed_zero)
  have b: "\<forall>j. 1 \<le> j \<and> j < 1 \<longrightarrow>
             int (length (collected env ?g pages j)) < go_int (num_voprs ?g - 1)
             \<and> 30 \<le> length (pages j)"
    by arith
  have c: "go_int (num_voprs ?g - 1) \<le> int (length (collected env ?g pages 1))
         \<or> length (pages 1) < 30"
    using assms by (auto simp add: go_int_values example_collected)
  show ?thesis
    using a b c by (intro conjI) (simp_all add: go_int_values)
qed

text \<open>
  On the example tracker: with four VOPRs three commits are asked for, the first page
  is full and gives one, the second page is short and gives another, and the loop ends
  there with two; with two VOPRs one commit is asked for, the first page gives it, and
  the second page is not fetched; with one VOPR nothing is fetched; with the least
  64-bit value for \<open>num_voprs\<close> the difference wraps around and both pages are fetched.
  On the tracker with the unknown branch and two VOPRs, the listing stops at the first
  pull request and the unknown branch is never looked up.
\<close>

theorem get_commit_hashes_pages_until_done_witness:
  "(\<exists>out. get_commit_hashes example_tracker example_globals = Some (out, Inr [''c1'', ''c2'']))
   \<and> (\<exists>out. get_commit_hashes example_tracker (example_globals\<lparr>num_voprs := 2\<rparr>)
               = Some (out, Inr [''c1'']))
   \<and> get_commit_hashes example_tracker (example_globals\<lparr>num_voprs := 1\<rparr>) = Some ([], Inr [])
   \<and> (\<exists>out. get_commit_hashes example_tracker (example_globals\<lparr>num_voprs := - (2 ^ 63)\<rparr>)
               = Some (out, Inr [''c1'', ''c2'']))
   \<and> \<not> resolves stale_tracker (example_globals\<lparr>num_voprs := 2\<rparr>) (labelled_issue ''gone'')
   \<and> (\<exists>out. get_commit_hashes stale_tracker (example_globals\<lparr>num_voprs := 2\<rparr>)
               = Some (out, Inr [''c1'']))"
proof -
  let ?g = "\<lambda>n. example_globals\<lparr>num_voprs := n\<rparr>"
  have eg: "?g 4 = example_globals" by (simp add: example_globals_def)
  have n1: "go_int (num_voprs (?g 1) - 1) \<le> 0" by (simp add: go_int_values)
  have h4: "2 < go_int (num_voprs (?g 4) - 1)" by (simp add: go_int_values)
  have hm: "2 < go_int (num_voprs (?g (- (2 ^ 63))) - 1)" by (simp add: go_int_values)
  have "\<exists>out. get_commit_hashes example_tracker (?g 4) = Some (out, Inr [''c1'', ''c2''])"
    using get_commit_hashes_pages_until_done
            [where g = "?g 4" and env = example_tracker and k = 2 and pages = example_pages,
             THEN conjunct2, THEN conjunct1, THEN mp, OF example_two_pages [OF h4]]
    by (simp add: go_int_values example_collected)
  then have a: "\<exists>out. get_commit_hashes example_tracker example_globals
                        = Some (out, Inr [''c1'', ''c2''])"
    by (simp only: eg)
  have b: "\<exists>out. get_commit_hashes example_tracker (?g 2) = Some (out, Inr [''c1''])"
    using get_commit_hashes_pages_until_done
            [where g = "?g 2" and env = example_tracker and k = 1 and pages = example_pages,
             THEN conjunct2, THEN conjunct1, THEN mp, OF example_one_page]
    by (simp add: go_int_values example_collected)
  have c: "get_commit_hashes example_tracker (?g 1) = Some ([], Inr [])"
    using get_commit_hashes_pages_until_done
            [where g = "?g 1" and env = example_tracker, THEN conjunct1, THEN mp, OF n1] .
  have d: "\<exists>out. get_commit_hashes example_tracker (?g (- (2 ^ 63)))
                   = Some (out, Inr [''c1'', ''c2''])"
    using get_commit_hashes_pages_until_done
            [where g = "?g (- (2 ^ 63))" and env = example_tracker and k = 2
               and pages = example_pages,
             THEN conjunct2, THEN conjunct1, THEN mp, OF example_two_pages [OF hm]]
    by (simp add: go_int_values example_collected)
  have e: "\<exists>out. get_commit_hashes stale_tracker (?g 2) = Some (out, Inr [''c1''])"
    using get_commit_hashes_pages_until_done
            [where g = "?g 2" and env = stale_tracker and k = 1 and pages = "\<lambda>j. stale_page",
             THEN conjunct2, THEN conjunct1, THEN mp, OF example_one_page]
    by (simp add: go_int_values example_collected)
  show ?thesis
    using a b c d example_resolves(5) [of 2] e by (intro conjI)
qed


end
